theory Spec2Isabelle
  imports Complex_Main "HOL-Library.Word"
begin

section \<open>ElectronMirror: camera widget, microphone visualiser and IPC test button\<close>

text \<open>
  The renderer of the application has three React components: \<open>App\<close> (container view
  with the IPC test button), \<open>CameraComponent\<close> and \<open>AudioVisualizer\<close>. Each is modelled
  by explicit state passing: a record holds the component's hook state, its refs and the
  platform objects it touches, and every source function becomes a function on that record.

  Conventions of the embedding.
  \<^item> JavaScript numbers are IEEE doubles; they are modelled by the real numbers, so
    rounding error is not represented. Where the source can produce \<open>NaN\<close> (a sum over an
    \<open>undefined\<close> array element) the value is a \<open>real option\<close> and \<open>None\<close> stands for \<open>NaN\<close>.
  \<^item> A \<open>Uint8Array\<close> is a list of 8-bit words.
  \<^item> String literals are the bytes of the UTF-8 source file; the Chinese user messages are
    written as byte lists with an English gloss.
  \<^item> An \<open>await\<close>ed platform call is a parameter of sum type: \<open>Inl\<close> carries the thrown value,
    \<open>Inr\<close> the result.
\<close>

subsection \<open>Strings of the source\<close>

definition utf8 :: "nat list \<Rightarrow> string" where
  "utf8 bs = map char_of bs"

text \<open>AudioVisualizer, line 77: "please allow microphone access to enable the audio visualisation".\<close>
definition MSG_MIC_NOT_ALLOWED :: string where
  "MSG_MIC_NOT_ALLOWED = utf8
     [0xE8, 0xAF, 0xB7, 0xE5, 0x85, 0x81, 0xE8, 0xAE, 0xB8, 0xE8, 0xAE, 0xBF, 0xE9, 0x97, 0xAE,
      0xE9, 0xBA, 0xA6, 0xE5, 0x85, 0x8B, 0xE9, 0xA3, 0x8E, 0xE4, 0xBB, 0xA5, 0xE5, 0x90, 0xAF,
      0xE7, 0x94, 0xA8, 0xE9, 0x9F, 0xB3, 0xE9, 0xA2, 0x91, 0xE5, 0x8F, 0xAF, 0xE8, 0xA7, 0x86,
      0xE5, 0x8C, 0x96]"

text \<open>AudioVisualizer, line 79: "no microphone device detected".\<close>
definition MSG_MIC_NOT_FOUND :: string where
  "MSG_MIC_NOT_FOUND = utf8
     [0xE6, 0x9C, 0xAA, 0xE6, 0xA3, 0x80, 0xE6, 0xB5, 0x8B, 0xE5, 0x88, 0xB0, 0xE9, 0xBA, 0xA6,
      0xE5, 0x85, 0x8B, 0xE9, 0xA3, 0x8E, 0xE8, 0xAE, 0xBE, 0xE5, 0xA4, 0x87]"

text \<open>AudioVisualizer, line 81: "audio initialisation failed, please check the device settings".\<close>
definition MSG_AUDIO_INIT_FAILED :: string where
  "MSG_AUDIO_INIT_FAILED = utf8
     [0xE9, 0x9F, 0xB3, 0xE9, 0xA2, 0x91, 0xE5, 0x88, 0x9D, 0xE5, 0xA7, 0x8B, 0xE5, 0x8C, 0x96,
      0xE5, 0xA4, 0xB1, 0xE8, 0xB4, 0xA5, 0xEF, 0xBC, 0x8C, 0xE8, 0xAF, 0xB7, 0xE6, 0xA3, 0x80,
      0xE6, 0x9F, 0xA5, 0xE8, 0xAE, 0xBE, 0xE5, 0xA4, 0x87, 0xE8, 0xAE, 0xBE, 0xE7, 0xBD, 0xAE]"

text \<open>CameraComponent, line 37: "cannot access the camera, please check the permission settings".\<close>
definition MSG_CAMERA :: string where
  "MSG_CAMERA = utf8
     [0xE6, 0x97, 0xA0, 0xE6, 0xB3, 0x95, 0xE8, 0xAE, 0xBF, 0xE9, 0x97, 0xAE, 0xE6, 0x91, 0x84,
      0xE5, 0x83, 0x8F, 0xE5, 0xA4, 0xB4, 0xEF, 0xBC, 0x8C, 0xE8, 0xAF, 0xB7, 0xE6, 0xA3, 0x80,
      0xE6, 0x9F, 0xA5, 0xE6, 0x9D, 0x83, 0xE9, 0x99, 0x90, 0xE8, 0xAE, 0xBE, 0xE7, 0xBD, 0xAE]"

text \<open>AudioVisualizer, line 269: the label of the button, "retry".\<close>
definition LABEL_RETRY :: string where
  "LABEL_RETRY = utf8 [0xE9, 0x87, 0x8D, 0xE8, 0xAF, 0x95]"

text \<open>AudioVisualizer, line 275: "listening..." and "initialising...".\<close>
definition LABEL_LISTENING :: string where
  "LABEL_LISTENING = utf8
     [0xE6, 0xAD, 0xA3, 0xE5, 0x9C, 0xA8, 0xE8, 0x81, 0x86, 0xE5, 0x90, 0xAC, 0x2E, 0x2E, 0x2E]"

definition LABEL_INITIALISING :: string where
  "LABEL_INITIALISING = utf8
     [0xE5, 0x88, 0x9D, 0xE5, 0xA7, 0x8B, 0xE5, 0x8C, 0x96, 0xE4, 0xB8, 0xAD, 0x2E, 0x2E, 0x2E]"

text \<open>The prefixes of the two \<open>console.error\<close> calls: "microphone access error:" and
  "camera access error:".\<close>
definition LOG_MIC_ERROR :: string where
  "LOG_MIC_ERROR = utf8
     [0xE9, 0xBA, 0xA6, 0xE5, 0x85, 0x8B, 0xE9, 0xA3, 0x8E, 0xE8, 0xAE, 0xBF, 0xE9, 0x97, 0xAE,
      0xE9, 0x94, 0x99, 0xE8, 0xAF, 0xAF, 0x3A]"

definition LOG_CAMERA_ERROR :: string where
  "LOG_CAMERA_ERROR = utf8
     [0xE6, 0x91, 0x84, 0xE5, 0x83, 0x8F, 0xE5, 0xA4, 0xB4, 0xE8, 0xAE, 0xBF, 0xE9, 0x97, 0xAE,
      0xE9, 0x94, 0x99, 0xE8, 0xAF, 0xAF, 0x3A]"

subsection \<open>Platform objects\<close>

text \<open>
  A value thrown into a \<open>catch\<close> block; the handlers read only its \<open>name\<close> property.
\<close>
datatype thrown = Thrown (errorName: string)

datatype track_state = Live | Ended

type_synonym media_stream = "track_state list"

datatype context_state = Running | Closed

text \<open>
  The store of platform objects. A stream, an audio context and a source node are
  referred to by their index in the store, so that a ref or a hook value holding an object
  aliases the object the platform handed out. \<open>rafPending\<close> is the list of animation-frame
  callbacks registered and not yet run or cancelled, by identifier; identifiers start at 1.
\<close>
record platform =
  streams :: "media_stream list"
  contexts :: "context_state list"
  sources :: "bool list"
  rafPending :: "nat list"
  rafCounter :: nat
  console :: "string list"

definition stopAllTracks :: "nat \<Rightarrow> 'a platform_scheme \<Rightarrow> 'a platform_scheme" where
  \<comment> \<open>\<open>stream.getTracks().forEach(track => track.stop())\<close>\<close>
  "stopAllTracks h w =
     (if h < length (streams w)
      then w\<lparr>streams := (streams w)[h := map (\<lambda>track. Ended) (streams w ! h)]\<rparr>
      else w)"

definition requestAnimationFrame :: "'a platform_scheme \<Rightarrow> nat \<times> 'a platform_scheme" where
  "requestAnimationFrame w =
     (let ident = rafCounter w + 1
      in (ident, w\<lparr>rafPending := rafPending w @ [ident], rafCounter := ident\<rparr>))"

definition cancelAnimationFrame :: "nat \<Rightarrow> 'a platform_scheme \<Rightarrow> 'a platform_scheme" where
  "cancelAnimationFrame ident w = w\<lparr>rafPending := filter (\<lambda>i. i \<noteq> ident) (rafPending w)\<rparr>"

subsection \<open>App: the IPC test button\<close>

text \<open>
  \<open>ipcSent\<close> is the list of calls of \<open>window.electron.ipcRenderer.send\<close>, each a channel
  name with the list of its further arguments.
\<close>
record app_state =
  errorMessage :: string
  ipcSent :: "(string \<times> string list) list"
  appConsole :: "string list"

definition initial_app :: app_state where
  "initial_app = \<lparr>errorMessage = [], ipcSent = [], appConsole = []\<rparr>"

definition ipcHandle :: "app_state \<Rightarrow> app_state" where
  "ipcHandle s =
     (let s1 = s\<lparr>ipcSent := ipcSent s @ [(''ping'', [])]\<rparr>
      in s1\<lparr>appConsole := appConsole s1 @ [''IPC message sent'']\<rparr>)"

text \<open>
  The events \<open>App\<close> handles: a click on the \<open>action-button\<close> element (\<open>onClick={ipcHandle}\<close>)
  and a call of the \<open>onError\<close> prop it passes to the camera component.
\<close>
datatype app_event = ClickSendIPC | OnError string

fun app_handle :: "app_event \<Rightarrow> app_state \<Rightarrow> app_state" where
  "app_handle ClickSendIPC s = ipcHandle s"
| "app_handle (OnError message) s = s\<lparr>errorMessage := message\<rparr>"

subsection \<open>CameraComponent\<close>

record video_element =
  srcObject :: "nat option"
  onloadedmetadata :: bool
  playing :: bool

record camera_world = platform +
  isCameraActive :: bool
  videoRef :: "video_element option"
  videoStreamRef :: "nat option"
  onErrorCalls :: "string list"

text \<open>
  \<open>setupCamera\<close>, lines 16 to 39. The argument is the outcome of
  \<open>await navigator.mediaDevices.getUserMedia(...)\<close>.
\<close>
definition setupCamera :: "thrown + media_stream \<Rightarrow> camera_world \<Rightarrow> camera_world" where
  "setupCamera outcome w =
     (case outcome of
        Inr stream \<Rightarrow>
          (let h = length (streams w);
               w1 = w\<lparr>streams := streams w @ [stream]\<rparr>;
               w2 = w1\<lparr>videoStreamRef := Some h\<rparr>
           in (case videoRef w2 of
                 Some v \<Rightarrow> w2\<lparr>videoRef := Some (v\<lparr>srcObject := Some h, onloadedmetadata := True\<rparr>)\<rparr>
               | None \<Rightarrow> w2))
      | Inl err \<Rightarrow>
          (let w1 = w\<lparr>console := console w @ [LOG_CAMERA_ERROR @ '' '' @ errorName err]\<rparr>
           in w1\<lparr>onErrorCalls := onErrorCalls w1 @ [MSG_CAMERA]\<rparr>))"

text \<open>The handler installed at line 30, run when the video element has its metadata.\<close>
definition camera_loadedmetadata :: "camera_world \<Rightarrow> camera_world" where
  "camera_loadedmetadata w =
     (case videoRef w of
        Some v \<Rightarrow>
          if onloadedmetadata v
          then w\<lparr>videoRef := Some (v\<lparr>playing := True\<rparr>), isCameraActive := True\<rparr>
          else w
      | None \<Rightarrow> w)"

text \<open>The cleanup returned by the effect, lines 44 to 49.\<close>
definition cameraCleanup :: "camera_world \<Rightarrow> camera_world" where
  "cameraCleanup w =
     (case videoStreamRef w of
        Some h \<Rightarrow> stopAllTracks h w
      | None \<Rightarrow> w)"

definition initial_camera :: camera_world where
  "initial_camera =
     \<lparr>streams = [], contexts = [], sources = [], rafPending = [], rafCounter = 0, console = [],
      isCameraActive = False,
      videoRef = Some \<lparr>srcObject = None, onloadedmetadata = False, playing = False\<rparr>,
      videoStreamRef = None, onErrorCalls = []\<rparr>"

text \<open>
  The camera component inside \<open>App\<close>. The effect of lines 15 to 50 has the dependency list
  \<open>[onError]\<close>, and \<open>App\<close> passes \<open>onError\<close> as an inline arrow function (lines 27 to 29 of
  \<open>App\<close>), which is a new function in every render of \<open>App\<close>. So React runs the effect
  after the first render, and again after every later render of \<open>App\<close>: the cleanup of the
  run before, then \<open>setupCamera\<close> anew. \<open>App\<close> renders again when \<open>setErrorMessage\<close> is
  called with a value other than the current one; a call with the current value changes
  nothing and the children are not rendered again.

  The first argument lists the outcomes of the successive \<open>getUserMedia\<close> requests, in the
  order in which they are made; the result gives the outcomes that were not asked for,
  with the states of \<open>App\<close> and of the camera component. Each run of the effect takes one
  outcome, hands the \<open>onError\<close> calls of that run to \<open>App\<close>, and runs again if that changed
  the error message of \<open>App\<close>.
\<close>
fun cameraEffect ::
  "(thrown + media_stream) list \<Rightarrow> app_state \<times> camera_world
     \<Rightarrow> (thrown + media_stream) list \<times> app_state \<times> camera_world" where
  "cameraEffect [] (a, c) = ([], a, c)"
| "cameraEffect (outcome # later) (a, c) =
     (let c1 = setupCamera outcome c;
          calls = drop (length (onErrorCalls c)) (onErrorCalls c1);
          a1 = fold (\<lambda>message. app_handle (OnError message)) calls a
      in if errorMessage a1 = errorMessage a then (later, a1, c1)
         else cameraEffect later (a1, cameraCleanup c1))"

subsection \<open>AudioVisualizer: constants and animation state\<close>

definition NUM_LINES :: nat where "NUM_LINES = 8"
definition NOISE_THRESHOLD :: real where "NOISE_THRESHOLD = 10"
definition LINE_WIDTH :: real where "LINE_WIDTH = 12 / 10"
definition MAX_AMPLITUDE :: real where "MAX_AMPLITUDE = 300"
definition IDLE_AMPLITUDE :: real where "IDLE_AMPLITUDE = 10"

text \<open>The object held by \<open>animationStateRef\<close>, lines 30 to 39.\<close>
record anim_state =
  phase :: real
  baseAmplitude :: real
  rotationAngle :: real
  rotationSpeed :: real
  breathPhase :: real
  breathSpeed :: real
  active :: bool
  targetAmplitude :: real

definition initial_anim :: anim_state where
  "initial_anim =
     \<lparr>phase = 0, baseAmplitude = IDLE_AMPLITUDE, rotationAngle = 0, rotationSpeed = 20,
      breathPhase = 0, breathSpeed = 20, active = False, targetAmplitude = IDLE_AMPLITUDE\<rparr>"

type_synonym byte = "8 word"

subsection \<open>AudioVisualizer: the arithmetic of one frame\<close>

text \<open>
  An array read \<open>dataArray[k]\<close>: the element, or \<open>None\<close> for \<open>undefined\<close> when \<open>k\<close> is
  not an index of the array.
\<close>
definition readByte :: "byte list \<Rightarrow> int \<Rightarrow> nat option" where
  "readByte arr k =
     (if 0 \<le> k \<and> nat k < length arr then Some (unat (arr ! nat k)) else None)"

text \<open>
  The two summing loops, line 127 and line 212:
  \<open>for (let bin = from; bin < stop; bin++) acc += dataArray[bin]\<close>.
  Adding \<open>undefined\<close> makes the sum \<open>NaN\<close> for good, which is the result \<open>None\<close>.
\<close>
function sumBins :: "byte list \<Rightarrow> int \<Rightarrow> int \<Rightarrow> nat \<Rightarrow> nat option" where
  "sumBins arr bin stop acc =
     (if bin < stop
      then (case readByte arr bin of
              None \<Rightarrow> None
            | Some v \<Rightarrow> sumBins arr (bin + 1) stop (acc + v))
      else Some acc)"
  by pat_completeness auto
termination
  by (relation "measure (\<lambda>(arr, bin, stop, acc). nat (stop - bin))") auto

declare sumBins.simps [simp del]

text \<open>
  Lines 126 to 128. \<open>0 / 0\<close> is \<open>NaN\<close> in JavaScript, so an empty array has no average.
\<close>
definition average :: "nat \<Rightarrow> byte list \<Rightarrow> real option" where
  "average len arr =
     (case sumBins arr 0 (int len) 0 of
        None \<Rightarrow> None
      | Some s \<Rightarrow> if len = 0 then None else Some (real s / real len))"

text \<open>
  Lines 131 to 141. A comparison with \<open>NaN\<close> is false, so an average that is \<open>NaN\<close> leaves the
  state inactive and the target at \<open>IDLE_AMPLITUDE\<close>.
\<close>
definition updateState :: "real option \<Rightarrow> anim_state \<Rightarrow> anim_state" where
  "updateState avg state =
     (let s1 = state\<lparr>phase := phase state + 0.01\<rparr>;
          s2 = s1\<lparr>breathPhase := breathPhase s1 + breathSpeed s1\<rparr>;
          s3 = s2\<lparr>rotationAngle := rotationAngle s2 + rotationSpeed s2\<rparr>;
          s4 = s3\<lparr>active := (case avg of Some a \<Rightarrow> a > NOISE_THRESHOLD + 5 | None \<Rightarrow> False)\<rparr>;
          s5 = s4\<lparr>targetAmplitude :=
                 (case avg of
                    Some a \<Rightarrow> if active s4 then min MAX_AMPLITUDE (a * 0.5) else IDLE_AMPLITUDE
                  | None \<Rightarrow> IDLE_AMPLITUDE)\<rparr>
      in s5\<lparr>baseAmplitude := baseAmplitude s5 + (targetAmplitude s5 - baseAmplitude s5) * 0.1\<rparr>)"

definition points :: nat where "points = 128"

text \<open>
  Lines 185 to 196. \<open>Math.pow(x, 0.5)\<close> is \<open>x powr 0.5\<close>; its argument \<open>4t(1 - t)\<close> is not
  negative for the positions \<open>0 \<le> t \<le> 1\<close> the loop visits.
\<close>
definition edgeFactor :: "real \<Rightarrow> real" where
  "edgeFactor t = (4 * t * (1 - t)) powr 0.5"

definition midBoost :: "real \<Rightarrow> real" where
  "midBoost t = (sin (t * pi)) ^ 3 * 1.5"

definition enhancedEdgeFactor :: "real \<Rightarrow> real" where
  "enhancedEdgeFactor t = edgeFactor t * (1 + midBoost t)"

definition amplitude :: "anim_state \<Rightarrow> real \<Rightarrow> real" where
  "amplitude state t =
     (let a = baseAmplitude state * enhancedEdgeFactor t
      in a * (1 + sin (breathPhase state) * 0.01))"

text \<open>Lines 204 to 213: the frequency band of a line and its average.\<close>
definition isMiddleLine :: "nat \<Rightarrow> bool" where
  "isMiddleLine lineIndex = (\<bar>real lineIndex - real NUM_LINES / 2\<bar> < real NUM_LINES * 0.3)"

definition freqRange :: "nat \<Rightarrow> nat \<Rightarrow> real" where
  "freqRange len lineIndex = (if isMiddleLine lineIndex then real len / 4 else real len / 3)"

definition binStart :: "nat \<Rightarrow> nat \<Rightarrow> int" where
  "binStart len lineIndex = \<lfloor>(real lineIndex / real NUM_LINES) * freqRange len lineIndex\<rfloor>"

definition binEnd :: "nat \<Rightarrow> nat \<Rightarrow> int" where
  "binEnd len lineIndex = \<lfloor>((real lineIndex + 1) / real NUM_LINES) * freqRange len lineIndex\<rfloor>"

definition freqAvg :: "nat \<Rightarrow> byte list \<Rightarrow> nat \<Rightarrow> real option" where
  "freqAvg len arr lineIndex =
     (case sumBins arr (binStart len lineIndex) (binEnd len lineIndex) 0 of
        None \<Rightarrow> None
      | Some freqSum \<Rightarrow>
          Some (real freqSum / max 1 (real_of_int (binEnd len lineIndex - binStart len lineIndex))))"

text \<open>Lines 154 and 199 to 225.\<close>
definition angleOffset :: "nat \<Rightarrow> real" where
  "angleOffset lineIndex = (real lineIndex / real NUM_LINES) * pi"

definition waveformValue :: "anim_state \<Rightarrow> nat \<Rightarrow> byte list \<Rightarrow> nat \<Rightarrow> real \<Rightarrow> real option" where
  "waveformValue state len arr lineIndex t =
     (if active state
      then (case freqAvg len arr lineIndex of
              None \<Rightarrow> None
            | Some avg \<Rightarrow>
                (let freqFactor = (avg / 255) * amplitude state t
                 in Some (sin (t * 10 + phase state + angleOffset lineIndex) * freqFactor
                          + sin (t * 20 + phase state * 1.5) * (freqFactor * 0.2))))
      else Some (sin (t * 8 + phase state + angleOffset lineIndex) * amplitude state t * 0.25
                 + sin (t * 16 + phase state * 1.3) * amplitude state t * 0.05))"

text \<open>Lines 229 to 232: the point of index \<open>i\<close> of a line, on a canvas \<open>w\<close> wide and \<open>h\<close> high.\<close>
definition xStretch :: "anim_state \<Rightarrow> real \<Rightarrow> real" where
  "xStretch state t = 1 + sin (rotationAngle state + t * pi * 2) * 0.03"

definition linePoint ::
  "anim_state \<Rightarrow> nat \<Rightarrow> byte list \<Rightarrow> real \<Rightarrow> real \<Rightarrow> nat \<Rightarrow> nat \<Rightarrow> real \<times> real option" where
  "linePoint state len arr w h lineIndex i =
     (let t = real i / real points;
          centerX = w / 2;
          centerY = h / 2;
          x = centerX + (t * 2 - 1) * (w * 0.5) * xStretch state t;
          y = map_option (\<lambda>v. centerY + v) (waveformValue state len arr lineIndex t)
      in (x, y))"

text \<open>
  What one pass of the loop over \<open>lineIndex\<close> strokes: the gradient of lines 158 to 168,
  the line style, and the path, whose first point is the \<open>moveTo\<close> and whose other points
  are the \<open>lineTo\<close>s, for \<open>i = 0, ..., points\<close>.
\<close>
record stroked_path =
  gradientLine :: "real \<times> real \<times> real \<times> real"
  colorStops :: "(real \<times> string) list"
  lineWidth :: real
  lineCap :: string
  pathPoints :: "(real \<times> real option) list"

definition drawLine :: "anim_state \<Rightarrow> nat \<Rightarrow> byte list \<Rightarrow> real \<Rightarrow> real \<Rightarrow> nat \<Rightarrow> stroked_path" where
  "drawLine state len arr w h lineIndex =
     (let centerX = w / 2; centerY = h / 2
      in \<lparr>gradientLine = (centerX - w * 0.35, centerY, centerX + w * 0.35, centerY),
          colorStops = [(0, ''rgba(255,255,255,0)''), (0.35, ''rgba(255,255,255,0.8)''),
                        (0.65, ''rgba(255,255,255,0.8)''), (1, ''rgba(255,255,255,0)'')],
          lineWidth = LINE_WIDTH,
          lineCap = ''round'',
          pathPoints = map (linePoint state len arr w h lineIndex) [0..<Suc points]\<rparr>)"

subsection \<open>AudioVisualizer: the component\<close>

text \<open>
  The canvas element: its bitmap size, the client size of its parent element (if it has a
  parent), whether \<open>getContext('2d')\<close> yields a context, and the paths stroked on it since
  it was last cleared.
\<close>
record canvas_element =
  width :: nat
  height :: nat
  parentElement :: "(nat \<times> nat) option"
  context2d :: bool
  picture :: "stroked_path list"

record analyser_node =
  fftSize :: nat
  smoothingTimeConstant :: real

definition frequencyBinCount :: "analyser_node \<Rightarrow> nat" where
  "frequencyBinCount a = fftSize a div 2"

text \<open>
  The component's hook state (\<open>isListening\<close>, \<open>error\<close>, \<open>audioContext\<close>, \<open>analyser\<close>), its
  refs, and the two variables \<open>bufferLength\<close> and \<open>dataArray\<close> that \<open>startDrawing\<close> creates
  and the drawing callback keeps using. \<open>canvasRef\<close> holds the canvas element itself.
\<close>
record audio_world = platform +
  isListening :: bool
  error :: "string option"
  audioContext :: "nat option"
  analyser :: "analyser_node option"
  canvasRef :: "canvas_element option"
  animationRef :: "nat option"
  mediaStreamRef :: "nat option"
  sourceRef :: "nat option"
  animationStateRef :: anim_state
  bufferLength :: nat
  dataArray :: "byte list"

text \<open>
  \<open>audioAnalyser.getByteFrequencyData(dataArray)\<close>: the analyser's current spectrum is
  copied into the array; what does not fit is dropped and array elements beyond the
  spectrum are left as they are. The array keeps its length.
\<close>
definition getByteFrequencyData :: "byte list \<Rightarrow> byte list \<Rightarrow> byte list" where
  "getByteFrequencyData spectrum arr = take (length arr) spectrum @ drop (length spectrum) arr"

text \<open>
  \<open>drawWaveforms\<close>, lines 111 to 241: one invocation of the drawing callback, on the canvas
  element \<open>canvas\<close> that \<open>startDrawing\<close> captured, with the spectrum the analyser has at
  that moment. Assigning \<open>canvas.width\<close> or \<open>canvas.height\<close> clears the bitmap, as
  \<open>clearRect\<close> over the whole canvas does.
\<close>
definition drawWaveforms ::
  "canvas_element \<Rightarrow> byte list \<Rightarrow> audio_world \<Rightarrow> canvas_element \<times> audio_world" where
  "drawWaveforms canvas spectrum w =
     (let canvas1 = (case parentElement canvas of
                       Some (clientWidth, clientHeight) \<Rightarrow>
                         canvas\<lparr>width := clientWidth, height := clientHeight, picture := []\<rparr>
                     | None \<Rightarrow> canvas);
          (ident, w1) = requestAnimationFrame w;
          w2 = w1\<lparr>animationRef := Some ident\<rparr>;
          w3 = w2\<lparr>dataArray := getByteFrequencyData spectrum (dataArray w2)\<rparr>;
          avg = average (bufferLength w3) (dataArray w3);
          w4 = w3\<lparr>animationStateRef := updateState avg (animationStateRef w3)\<rparr>;
          state = animationStateRef w4;
          canvas2 = canvas1\<lparr>picture := []\<rparr>;
          canvas3 = canvas2\<lparr>picture :=
                      map (drawLine state (bufferLength w4) (dataArray w4)
                             (real (width canvas2)) (real (height canvas2)))
                          [0..<NUM_LINES]\<rparr>
      in (canvas3, w4))"

text \<open>
  \<open>startDrawing\<close>, lines 97 to 245. The canvas the callback drew on is the element
  \<open>canvasRef\<close> holds, so the result is stored back there.
\<close>
definition startDrawing :: "analyser_node \<Rightarrow> byte list \<Rightarrow> audio_world \<Rightarrow> audio_world" where
  "startDrawing audioAnalyser spectrum w =
     (case canvasRef w of
        None \<Rightarrow> w
      | Some canvas \<Rightarrow>
          if \<not> context2d canvas then w
          else (let w1 = w\<lparr>bufferLength := frequencyBinCount audioAnalyser\<rparr>;
                    w2 = w1\<lparr>dataArray := replicate (bufferLength w1) 0\<rparr>;
                    (canvas', w3) = drawWaveforms canvas spectrum w2
                in w3\<lparr>canvasRef := Some canvas'\<rparr>))"

text \<open>
  The platform's side of the loop: at a display refresh the callbacks registered so far are
  taken off the list and run in order. The only function the component ever registers is
  \<open>drawWaveforms\<close>, on the canvas element held by \<open>canvasRef\<close>.
\<close>
definition runCallback :: "byte list \<Rightarrow> audio_world \<Rightarrow> audio_world" where
  "runCallback spectrum w =
     (case canvasRef w of
        Some canvas \<Rightarrow> (let (canvas', w1) = drawWaveforms canvas spectrum w
                        in w1\<lparr>canvasRef := Some canvas'\<rparr>)
      | None \<Rightarrow> w)"

definition displayRefresh :: "byte list \<Rightarrow> audio_world \<Rightarrow> audio_world" where
  "displayRefresh spectrum w =
     (let callbacks = rafPending w;
          w1 = w\<lparr>rafPending := []\<rparr>
      in fold (\<lambda>ident. runCallback spectrum) callbacks w1)"

text \<open>
  \<open>initAudio\<close>, lines 49 to 84. The environment gives the outcome of the \<open>getUserMedia\<close> call
  and says whether constructing the audio context throws. \<open>tryInitAudio\<close> is the \<open>try\<close>
  block: it returns the value thrown, if any, with the state as it is at the throw.
\<close>
record audio_env =
  getUserMedia :: "thrown + media_stream"
  newAudioContext :: "thrown option"

definition tryInitAudio :: "audio_env \<Rightarrow> byte list \<Rightarrow> audio_world \<Rightarrow> thrown option \<times> audio_world" where
  "tryInitAudio env spectrum w =
     (case getUserMedia env of
        Inl err \<Rightarrow> (Some err, w)
      | Inr stream \<Rightarrow>
          (let h = length (streams w);
               w1 = w\<lparr>streams := streams w @ [stream]\<rparr>;
               w2 = w1\<lparr>mediaStreamRef := Some h\<rparr>
           in (case newAudioContext env of
                 Some err \<Rightarrow> (Some err, w2)
               | None \<Rightarrow>
                   (let context = length (contexts w2);
                        w3 = w2\<lparr>contexts := contexts w2 @ [Running]\<rparr>;
                        audioAnalyser = \<lparr>fftSize = 2048, smoothingTimeConstant = 0.85\<rparr>;
                        source = length (sources w3);
                        w4 = w3\<lparr>sources := sources w3 @ [True]\<rparr>;
                        w5 = w4\<lparr>sourceRef := Some source\<rparr>;
                        w6 = w5\<lparr>audioContext := Some context\<rparr>;
                        w7 = w6\<lparr>analyser := Some audioAnalyser\<rparr>;
                        w8 = w7\<lparr>isListening := True\<rparr>
                    in (None, startDrawing audioAnalyser spectrum w8)))))"

definition catchInitAudio :: "thrown \<Rightarrow> audio_world \<Rightarrow> audio_world" where
  "catchInitAudio err w =
     (let w1 = w\<lparr>console := console w @ [LOG_MIC_ERROR @ '' '' @ errorName err]\<rparr>
      in if errorName err = ''NotAllowedError'' then w1\<lparr>error := Some MSG_MIC_NOT_ALLOWED\<rparr>
         else if errorName err = ''NotFoundError'' then w1\<lparr>error := Some MSG_MIC_NOT_FOUND\<rparr>
         else w1\<lparr>error := Some MSG_AUDIO_INIT_FAILED\<rparr>)"

definition initAudio :: "audio_env \<Rightarrow> byte list \<Rightarrow> audio_world \<Rightarrow> audio_world" where
  "initAudio env spectrum w =
     (case tryInitAudio env spectrum w of
        (Some err, w') \<Rightarrow> catchInitAudio err w'
      | (None, w') \<Rightarrow> w')"

text \<open>
  \<open>cleanupAudio\<close>, lines 254 to 261. The refs are read from the state at the time of the
  call. \<open>audioContext\<close> is not a ref but a hook value: the function reads the value that was
  current in the render that created this \<open>cleanupAudio\<close>, given here as \<open>seenContext\<close>.
  A value of \<open>0\<close> in \<open>animationRef\<close> would count as absent (the test is for truthiness).
\<close>
definition cleanupAudio :: "nat option \<Rightarrow> audio_world \<Rightarrow> audio_world" where
  "cleanupAudio seenContext w =
     (let w1 = (case animationRef w of
                  Some ident \<Rightarrow> if ident \<noteq> 0 then cancelAnimationFrame ident w else w
                | None \<Rightarrow> w);
          w2 = (case sourceRef w1 of
                  Some source \<Rightarrow> w1\<lparr>sources := (sources w1)[source := False]\<rparr>
                | None \<Rightarrow> w1);
          w3 = (case mediaStreamRef w2 of
                  Some h \<Rightarrow> stopAllTracks h w2
                | None \<Rightarrow> w2)
      in (case seenContext of
            Some context \<Rightarrow> w3\<lparr>contexts := (contexts w3)[context := Closed]\<rparr>
          | None \<Rightarrow> w3))"

text \<open>
  The component as first rendered, lines 11 to 39, with the canvas element its first render
  puts on the page (if any).
\<close>
definition initial_audio :: "canvas_element option \<Rightarrow> audio_world" where
  "initial_audio canvas =
     \<lparr>streams = [], contexts = [], sources = [], rafPending = [], rafCounter = 0, console = [],
      isListening = False, error = None, audioContext = None, analyser = None,
      canvasRef = canvas, animationRef = None, mediaStreamRef = None, sourceRef = None,
      animationStateRef = initial_anim, bufferLength = 0, dataArray = []\<rparr>"

text \<open>
  The effect of lines 42 to 90 has the dependency list \<open>[]\<close>: React runs it once, after the
  first render, and on unmount calls the cleanup that this one run returned. That cleanup,
  \<open>() => cleanupAudio()\<close>, was created in the first render, so the \<open>cleanupAudio\<close> it calls
  is the first render's and sees the first render's hook values, those of
  \<open>initial_audio\<close>. Later calls of \<open>setAudioContext\<close> change what later renders see, not
  what this closure sees.
\<close>
definition mountAudio :: "canvas_element option \<Rightarrow> audio_env \<Rightarrow> byte list \<Rightarrow> audio_world" where
  "mountAudio canvas env spectrum = initAudio env spectrum (initial_audio canvas)"

definition unmountAudio :: "canvas_element option \<Rightarrow> audio_world \<Rightarrow> audio_world" where
  "unmountAudio canvas w = cleanupAudio (audioContext (initial_audio canvas)) w"

text \<open>
  What the component renders, lines 264 to 280: the error message with a button which
  reloads the window, or the canvas with the status indicator. An empty error string is
  falsy and renders the canvas.
\<close>
datatype button_action = ReloadWindow

datatype audio_view =
  ErrorMessage string "string \<times> button_action"
| Visualizer bool string

definition renderAudio :: "audio_world \<Rightarrow> audio_view" where
  "renderAudio w =
     (case error w of
        Some message \<Rightarrow>
          if message \<noteq> [] then ErrorMessage message (LABEL_RETRY, ReloadWindow)
          else Visualizer (isListening w) (if isListening w then LABEL_LISTENING else LABEL_INITIALISING)
      | None \<Rightarrow>
          Visualizer (isListening w) (if isListening w then LABEL_LISTENING else LABEL_INITIALISING))"

subsection \<open>Notions used in the statements\<close>

text \<open>The interval the base amplitude is claimed to stay in.\<close>
definition amplitude_bounded :: "anim_state \<Rightarrow> bool" where
  "amplitude_bounded state \<longleftrightarrow> 7.5 \<le> baseAmplitude state \<and> baseAmplitude state \<le> 127.5"

text \<open>
  Example inputs: a canvas in a container of 800 by 600 pixels, a microphone that is granted
  with one live track, and the spectrum of silence and of a signal at full scale, of the
  1024 bins the analyser has.
\<close>
definition example_canvas :: canvas_element where
  "example_canvas =
     \<lparr>width = 300, height = 150, parentElement = Some (800, 600), context2d = True, picture = []\<rparr>"

definition example_env :: audio_env where
  "example_env = \<lparr>getUserMedia = Inr [Live], newAudioContext = None\<rparr>"

definition silence :: "byte list" where
  "silence = replicate 1024 0"

definition full_scale :: "byte list" where
  "full_scale = replicate 1024 255"

text \<open>The data array has the length the drawing code believes it has.\<close>
definition array_allocated :: "audio_world \<Rightarrow> bool" where
  "array_allocated w \<longleftrightarrow> length (dataArray w) = bufferLength w"

text \<open>
  What no frame of the drawing loop touches: the platform's streams, contexts, source
  nodes and console, the hook state, the stream and source refs, and the two speeds of
  the animation record.
\<close>
definition untouched ::
  "audio_world \<Rightarrow> (media_stream list \<times> context_state list \<times> bool list \<times> string list)
     \<times> (bool \<times> string option \<times> nat option \<times> analyser_node option)
     \<times> (nat option \<times> nat option) \<times> (real \<times> real)" where
  "untouched w =
     ((streams w, contexts w, sources w, console w),
      (isListening w, error w, audioContext w, analyser w),
      (mediaStreamRef w, sourceRef w),
      (rotationSpeed (animationStateRef w), breathSpeed (animationStateRef w)))"

text \<open>The message the \<open>catch\<close> block of \<open>initAudio\<close> chooses for a thrown value, lines 76 to 82.\<close>
definition micMessage :: "thrown \<Rightarrow> string" where
  "micMessage err =
     (if errorName err = ''NotAllowedError'' then MSG_MIC_NOT_ALLOWED
      else if errorName err = ''NotFoundError'' then MSG_MIC_NOT_FOUND
      else MSG_AUDIO_INIT_FAILED)"

text \<open>The picture on the canvas the component holds, and the size of that canvas.\<close>
definition framePicture :: "audio_world \<Rightarrow> stroked_path list" where
  "framePicture w = (case canvasRef w of Some canvas \<Rightarrow> picture canvas | None \<Rightarrow> [])"

definition frameSize :: "audio_world \<Rightarrow> (nat \<times> nat) option" where
  "frameSize w = map_option (\<lambda>canvas. (width canvas, height canvas)) (canvasRef w)"

section \<open>Properties\<close>

subsection \<open>The IPC button\<close>

lemma ipcSent_clicks:
  "ipcSent ((app_handle ClickSendIPC ^^ n) s) = ipcSent s @ replicate n (''ping'', [])"
proof (induction n arbitrary: s)
  case 0
  show ?case by simp
next
  case (Suc n)
  have "ipcSent ((app_handle ClickSendIPC ^^ Suc n) s)
      = ipcSent (app_handle ClickSendIPC ((app_handle ClickSendIPC ^^ n) s))"
    by simp
  also have "\<dots> = ipcSent ((app_handle ClickSendIPC ^^ n) s) @ [(''ping'', [])]"
    by (simp add: ipcHandle_def Let_def)
  also have "\<dots> = ipcSent s @ replicate n (''ping'', []) @ [(''ping'', [])]"
    by (simp add: Suc.IH)
  also have "\<dots> = ipcSent s @ replicate (Suc n) (''ping'', [])"
    by (simp add: replicate_append_same)
  finally show ?case .
qed

text \<open>
  C7. A click of the Send IPC button appends exactly one message to the messages sent, on
  the channel \<open>ping\<close> and with an empty argument list; \<open>n\<close> clicks send \<open>n\<close> such messages
  and nothing else.
\<close>
theorem send_ipc_click_sends_one_ping:
  "ipcSent (app_handle ClickSendIPC s) = ipcSent s @ [(''ping'', [])]
   \<and> ipcSent ((app_handle ClickSendIPC ^^ n) s) = ipcSent s @ replicate n (''ping'', [])"
  by (simp add: ipcSent_clicks ipcHandle_def Let_def)

subsection \<open>The camera's error report\<close>

text \<open>
  One run of \<open>setupCamera\<close> whose camera request fails: whatever was thrown, \<open>onError\<close> is
  called once, with the one camera message, the error is written to the console, and
  nothing else in the component changes.
\<close>
lemma setupCamera_failure:
  "onErrorCalls (setupCamera (Inl err) w) = onErrorCalls w @ [MSG_CAMERA]"
  "console (setupCamera (Inl err) w) = console w @ [LOG_CAMERA_ERROR @ '' '' @ errorName err]"
  "(setupCamera (Inl err) w)\<lparr>console := console w, onErrorCalls := onErrorCalls w\<rparr> = w"
  by (simp_all add: setupCamera_def Let_def)

lemma MSG_CAMERA_nonempty: "MSG_CAMERA \<noteq> []"
  by (simp add: MSG_CAMERA_def utf8_def)

text \<open>
  In the application the failure is not reported once and left at that. With an error
  message in \<open>App\<close> other than the camera message (as at the start, where it is empty), a
  failed request makes \<open>App\<close> render again, the effect runs again, and the camera is
  requested a second time; if that fails too, \<open>onError\<close> has been called twice. Only then
  does it stop, because the message is already the one shown.
\<close>
lemma cameraEffect_fails_twice:
  assumes "errorMessage a \<noteq> MSG_CAMERA"
  shows "cameraEffect (Inl err # Inl err' # later) (a, c)
       = (later, a\<lparr>errorMessage := MSG_CAMERA\<rparr>,
          setupCamera (Inl err') (cameraCleanup (setupCamera (Inl err) c)))"
proof -
  let ?c1 = "cameraCleanup (setupCamera (Inl err) c)"
  let ?a1 = "a\<lparr>errorMessage := MSG_CAMERA\<rparr>"
  have calls: "drop (length (onErrorCalls w)) (onErrorCalls (setupCamera (Inl e) w)) = [MSG_CAMERA]"
    for e w by (simp add: setupCamera_failure)
  have first: "cameraEffect (Inl err # Inl err' # later) (a, c)
             = cameraEffect (Inl err' # later) (?a1, ?c1)"
    using assms by (simp add: calls Let_def)
  have second: "cameraEffect (Inl err' # later) (?a1, ?c1)
              = (later, ?a1, setupCamera (Inl err') ?c1)"
    by (simp add: calls Let_def)
  show ?thesis
    unfolding first second by (rule refl)
qed

text \<open>
  C6 at a concrete run. The application starts, the camera request is rejected with
  \<open>NotAllowedError\<close>, and so would every later request be. The claim has the component
  report the one message and take no other action. The code reports the one message, but
  it also asks for the camera a second time and reports the failure a second time: of the
  three outcomes on offer two were asked for, \<open>onError\<close> was called twice, and two errors
  are on the console.
\<close>
theorem camera_failure_requests_again:
  "fst (cameraEffect
          [Inl (Thrown ''NotAllowedError''), Inl (Thrown ''NotAllowedError''),
           Inl (Thrown ''NotAllowedError'')]
          (initial_app, initial_camera))
     = [Inl (Thrown ''NotAllowedError'')]
   \<and> onErrorCalls (snd (snd (cameraEffect
          [Inl (Thrown ''NotAllowedError''), Inl (Thrown ''NotAllowedError''),
           Inl (Thrown ''NotAllowedError'')]
          (initial_app, initial_camera))))
     = [MSG_CAMERA, MSG_CAMERA]
   \<and> length (console (snd (snd (cameraEffect
          [Inl (Thrown ''NotAllowedError''), Inl (Thrown ''NotAllowedError''),
           Inl (Thrown ''NotAllowedError'')]
          (initial_app, initial_camera))))) = 2
   \<and> errorMessage (fst (snd (cameraEffect
          [Inl (Thrown ''NotAllowedError''), Inl (Thrown ''NotAllowedError''),
           Inl (Thrown ''NotAllowedError'')]
          (initial_app, initial_camera))))
     = MSG_CAMERA"
proof -
  have "errorMessage initial_app \<noteq> MSG_CAMERA"
    using MSG_CAMERA_nonempty by (simp add: initial_app_def)
  then have "cameraEffect
          [Inl (Thrown ''NotAllowedError''), Inl (Thrown ''NotAllowedError''),
           Inl (Thrown ''NotAllowedError'')]
          (initial_app, initial_camera)
     = ([Inl (Thrown ''NotAllowedError'')], initial_app\<lparr>errorMessage := MSG_CAMERA\<rparr>,
        setupCamera (Inl (Thrown ''NotAllowedError''))
          (cameraCleanup (setupCamera (Inl (Thrown ''NotAllowedError'')) initial_camera)))"
    by (rule cameraEffect_fails_twice)
  then show ?thesis
    by (simp add: initial_camera_def setupCamera_def cameraCleanup_def Let_def)
qed

text \<open>
  When the first request is granted nothing is reported, \<open>App\<close> does not render again and
  the camera is asked for once.
\<close>
lemma cameraEffect_granted:
  "cameraEffect (Inr stream # later) (a, c) = (later, a, setupCamera (Inr stream) c)"
proof -
  have "onErrorCalls (setupCamera (Inr stream) c) = onErrorCalls c"
    by (simp add: setupCamera_def Let_def split: option.splits)
  then show ?thesis by (simp add: Let_def)
qed

subsection \<open>The frequency band of a line\<close>

lemma isMiddleLine_iff: "isMiddleLine l \<longleftrightarrow> 2 \<le> l \<and> l \<le> 6"
  unfolding isMiddleLine_def NUM_LINES_def by (auto simp: abs_if)

lemma freqRange_nonneg: "0 \<le> freqRange len l"
  by (simp add: freqRange_def)

lemma freqRange_le_third: "freqRange len l \<le> real len / 3"
  by (simp add: freqRange_def)

lemma binStart_nonneg: "0 \<le> binStart len l"
  unfolding binStart_def by (simp add: freqRange_nonneg NUM_LINES_def)

lemma binStart_le_binEnd: "binStart len l \<le> binEnd len l"
  unfolding binStart_def binEnd_def
  by (intro floor_mono mult_right_mono divide_right_mono) (simp_all add: freqRange_nonneg)

lemma binEnd_le_len:
  assumes "l < NUM_LINES"
  shows "binEnd len l \<le> int len"
proof -
  have frac: "(real l + 1) / real NUM_LINES \<le> 1"
    using assms by (simp add: NUM_LINES_def)
  have "((real l + 1) / real NUM_LINES) * freqRange len l \<le> 1 * freqRange len l"
    by (rule mult_right_mono [OF frac freqRange_nonneg])
  also have "\<dots> = freqRange len l"
    by simp
  also have "\<dots> \<le> real len / 3"
    by (rule freqRange_le_third)
  also have "\<dots> \<le> real len"
    by simp
  finally have "((real l + 1) / real NUM_LINES) * freqRange len l \<le> real_of_int (int len)"
    by simp
  then show ?thesis
    unfolding binEnd_def by (metis floor_mono floor_of_int)
qed

lemma readByte_in_range:
  "0 \<le> k \<Longrightarrow> k < int (length arr) \<Longrightarrow> readByte arr k = Some (unat (arr ! nat k))"
  by (simp add: readByte_def nat_less_iff)

lemma sumBins_in_range:
  "0 \<le> bin \<Longrightarrow> stop \<le> int (length arr) \<Longrightarrow> \<exists>s. sumBins arr bin stop acc = Some s"
proof (induction arr bin stop acc rule: sumBins.induct)
  case (1 arr bin stop acc)
  show ?case
  proof (cases "bin < stop")
    case True
    with "1.prems" have rd: "readByte arr bin = Some (unat (arr ! nat bin))"
      by (simp add: readByte_in_range)
    have "\<exists>s. sumBins arr (bin + 1) stop (acc + unat (arr ! nat bin)) = Some s"
      using "1.IH" [OF True rd] "1.prems" by simp
    then show ?thesis
      using True rd by (subst sumBins.simps) simp
  next
    case False
    then show ?thesis by (subst sumBins.simps) simp
  qed
qed

lemma freqAvg_defined:
  assumes "l < NUM_LINES" "length arr = len"
  shows "\<exists>v. freqAvg len arr l = Some v"
proof -
  have "binEnd len l \<le> int (length arr)"
    using binEnd_le_len [OF assms(1), of len] assms(2) by simp
  then obtain s where "sumBins arr (binStart len l) (binEnd len l) 0 = Some s"
    using sumBins_in_range [OF binStart_nonneg] by blast
  then show ?thesis by (simp add: freqAvg_def)
qed

text \<open>
  C8. For every line index below \<open>NUM_LINES\<close> and every buffer length of at least 1, with
  the data array of that length: the band bounds satisfy
  \<open>0 \<le> binStart \<le> binEnd \<le> bufferLength\<close>, the frequency range is at most a third of the
  buffer length and \<open>(lineIndex + 1) / NUM_LINES\<close> is at most 1, every read \<open>dataArray[bin]\<close> of the averaging loop is inside the array, the
  divisor \<open>Math.max(1, binEnd - binStart)\<close> is at least 1, and so the band average is a
  number.
\<close>
theorem band_in_bounds:
  assumes "lineIndex < NUM_LINES" and "1 \<le> len" and "length arr = len"
  shows "0 \<le> binStart len lineIndex
       \<and> binStart len lineIndex \<le> binEnd len lineIndex
       \<and> binEnd len lineIndex \<le> int len
       \<and> freqRange len lineIndex \<le> real len / 3
       \<and> (real lineIndex + 1) / real NUM_LINES \<le> 1
       \<and> (\<forall>bin. binStart len lineIndex \<le> bin \<and> bin < binEnd len lineIndex
              \<longrightarrow> readByte arr bin = Some (unat (arr ! nat bin)))
       \<and> (1::real) \<le> max 1 (real_of_int (binEnd len lineIndex - binStart len lineIndex))
       \<and> (\<exists>v. freqAvg len arr lineIndex = Some v)"
proof -
  have frac: "(real lineIndex + 1) / real NUM_LINES \<le> 1"
    using assms(1) by (simp add: NUM_LINES_def)
  have inb: "\<forall>bin. binStart len lineIndex \<le> bin \<and> bin < binEnd len lineIndex
              \<longrightarrow> readByte arr bin = Some (unat (arr ! nat bin))"
  proof (intro allI impI)
    fix bin assume b: "binStart len lineIndex \<le> bin \<and> bin < binEnd len lineIndex"
    have "0 \<le> bin" using b binStart_nonneg [of len lineIndex] by linarith
    moreover have "bin < int (length arr)"
      using b binEnd_le_len [OF assms(1), of len] assms(3) by linarith
    ultimately show "readByte arr bin = Some (unat (arr ! nat bin))"
      by (rule readByte_in_range)
  qed
  show ?thesis
    using binStart_nonneg [of len lineIndex] binStart_le_binEnd [of len lineIndex]
      binEnd_le_len [OF assms(1), of len] freqRange_le_third [of len lineIndex]
      frac inb freqAvg_defined [OF assms(1) assms(3)]
    by simp
qed

theorem band_in_bounds_witness:
  "(7::nat) < NUM_LINES \<and> (1::nat) \<le> 1024 \<and> length (replicate 1024 (0::byte)) = 1024
   \<and> binStart 1024 7 = 298 \<and> binEnd 1024 7 = 341
   \<and> freqRange 1024 7 \<le> 1024 / 3
   \<and> readByte (replicate 1024 0) 340 = Some 0
   \<and> (\<exists>v. freqAvg 1024 (replicate 1024 0) 7 = Some v)"
proof -
  have l: "(7::nat) < NUM_LINES" by (simp add: NUM_LINES_def)
  have n: "(1::nat) \<le> 1024" by simp
  have a: "length (replicate 1024 (0::byte)) = 1024" by simp
  have s: "binStart 1024 7 = 298" and e: "binEnd 1024 7 = 341"
    by (simp_all add: binStart_def binEnd_def freqRange_def isMiddleLine_def NUM_LINES_def)
  show ?thesis
    using band_in_bounds [OF l n a] l s e by simp
qed

subsection \<open>The amplitude stays bounded\<close>

lemma sumBins_upper:
  "sumBins arr bin stop acc = Some s \<Longrightarrow> s \<le> acc + 255 * nat (stop - bin)"
proof (induction arr bin stop acc rule: sumBins.induct)
  case (1 arr bin stop acc)
  show ?case
  proof (cases "bin < stop")
    case True
    then obtain v where rd: "readByte arr bin = Some v"
      and rest: "sumBins arr (bin + 1) stop (acc + v) = Some s"
      using "1.prems" by (subst (asm) sumBins.simps) (auto split: option.splits)
    have "v \<le> 255"
    proof -
      have "unat (arr ! nat bin) < 2 ^ LENGTH(8)" by (rule unsigned_less)
      then show ?thesis using rd by (auto simp: readByte_def split: if_splits)
    qed
    moreover have "s \<le> (acc + v) + 255 * nat (stop - (bin + 1))"
      by (rule "1.IH" [OF True rd rest])
    moreover have "nat (stop - bin) = Suc (nat (stop - (bin + 1)))"
      using True by simp
    ultimately show ?thesis by simp
  next
    case False
    then show ?thesis using "1.prems" by (subst (asm) sumBins.simps) simp
  qed
qed

lemma average_range:
  assumes "average len arr = Some a"
  shows "0 \<le> a \<and> a \<le> 255"
proof -
  from assms obtain s where s: "sumBins arr 0 (int len) 0 = Some s" and len: "len \<noteq> 0"
    and a: "a = real s / real len"
    by (auto simp: average_def split: option.splits if_splits)
  have "s \<le> 255 * len" using sumBins_upper [OF s] by simp
  then have "real s \<le> real (255 * len)" by (rule of_nat_mono)
  then have "real s \<le> 255 * real len" by simp
  then show ?thesis using len a by (simp add: divide_le_eq)
qed

lemma updateState_target:
  assumes "\<And>a. avg = Some a \<Longrightarrow> a \<le> 255"
  shows "targetAmplitude (updateState avg state) = IDLE_AMPLITUDE
       \<or> (7.5 < targetAmplitude (updateState avg state) \<and> targetAmplitude (updateState avg state) \<le> 127.5)"
proof (cases avg)
  case None
  then show ?thesis by (simp add: updateState_def Let_def)
next
  case (Some a)
  then have "a \<le> 255" by (rule assms)
  then show ?thesis using Some
    by (simp add: updateState_def Let_def NOISE_THRESHOLD_def MAX_AMPLITUDE_def IDLE_AMPLITUDE_def min_def)
qed

lemma updateState_base:
  "baseAmplitude (updateState avg state)
     = baseAmplitude state + (targetAmplitude (updateState avg state) - baseAmplitude state) * 0.1"
  by (simp add: updateState_def Let_def)

lemma smoothing_step:
  fixes b t :: real
  assumes "lo \<le> t" "t \<le> hi" "lo \<le> b" "b \<le> hi"
  shows "lo \<le> b + (t - b) * 0.1" and "b + (t - b) * 0.1 \<le> hi"
  using assms by argo+

lemma updateState_bounded:
  assumes "\<And>a. avg = Some a \<Longrightarrow> a \<le> 255" and "amplitude_bounded state"
  shows "amplitude_bounded (updateState avg state)"
proof -
  let ?t = "targetAmplitude (updateState avg state)"
  have t: "7.5 \<le> ?t" "?t \<le> 127.5"
    using updateState_target [of avg state, OF assms(1)] by (auto simp: IDLE_AMPLITUDE_def)
  have b: "7.5 \<le> baseAmplitude state" "baseAmplitude state \<le> 127.5"
    using assms(2) by (simp_all add: amplitude_bounded_def)
  have "7.5 \<le> baseAmplitude state + (?t - baseAmplitude state) * 0.1"
    using t b by (rule smoothing_step)
  moreover have "baseAmplitude state + (?t - baseAmplitude state) * 0.1 \<le> 127.5"
    using t b by (rule smoothing_step)
  ultimately show ?thesis
    unfolding amplitude_bounded_def updateState_base by (rule conjI)
qed

lemma drawWaveforms_anim:
  "animationStateRef (snd (drawWaveforms canvas spectrum w))
     = updateState (average (bufferLength w) (getByteFrequencyData spectrum (dataArray w)))
         (animationStateRef w)"
  by (simp add: drawWaveforms_def requestAnimationFrame_def Let_def split: prod.splits)

lemma drawWaveforms_bounded:
  assumes "amplitude_bounded (animationStateRef w)"
  shows "amplitude_bounded (animationStateRef (snd (drawWaveforms canvas spectrum w)))"
  unfolding drawWaveforms_anim
  by (rule updateState_bounded [OF _ assms]) (simp add: average_range)

lemma runCallback_bounded:
  assumes "amplitude_bounded (animationStateRef w)"
  shows "amplitude_bounded (animationStateRef (runCallback spectrum w))"
proof (cases "canvasRef w")
  case None
  then show ?thesis using assms by (simp add: runCallback_def)
next
  case (Some canvas)
  then show ?thesis
    using drawWaveforms_bounded [OF assms, of canvas spectrum]
    by (simp add: runCallback_def case_prod_beta)
qed

lemma fold_runCallback_bounded:
  "amplitude_bounded (animationStateRef w) \<Longrightarrow>
   amplitude_bounded (animationStateRef (fold (\<lambda>ident. runCallback spectrum) ids w))"
  by (induction ids arbitrary: w) (simp_all add: runCallback_bounded)

lemma displayRefresh_bounded:
  assumes "amplitude_bounded (animationStateRef w)"
  shows "amplitude_bounded (animationStateRef (displayRefresh spectrum w))"
  unfolding displayRefresh_def Let_def
  by (rule fold_runCallback_bounded) (use assms in simp)

lemma startDrawing_bounded:
  assumes "amplitude_bounded (animationStateRef w)"
  shows "amplitude_bounded (animationStateRef (startDrawing a spectrum w))"
proof (cases "canvasRef w")
  case None
  then show ?thesis using assms by (simp add: startDrawing_def)
next
  case (Some canvas)
  let ?w2 = "w\<lparr>bufferLength := frequencyBinCount a,
                dataArray := replicate (frequencyBinCount a) 0\<rparr>"
  have "amplitude_bounded (animationStateRef ?w2)" using assms by simp
  from drawWaveforms_bounded [OF this, of canvas spectrum] show ?thesis
    using Some assms by (simp add: startDrawing_def Let_def case_prod_beta)
qed

lemma catchInitAudio_anim: "animationStateRef (catchInitAudio err w) = animationStateRef w"
  by (simp add: catchInitAudio_def Let_def)

lemma initAudio_bounded:
  assumes "amplitude_bounded (animationStateRef w)"
  shows "amplitude_bounded (animationStateRef (initAudio env spectrum w))"
proof -
  have "amplitude_bounded (animationStateRef (snd (tryInitAudio env spectrum w)))"
    using assms
    by (auto simp: tryInitAudio_def Let_def intro!: startDrawing_bounded split: sum.splits option.splits)
  then show ?thesis
    by (auto simp: initAudio_def catchInitAudio_anim split: prod.splits option.splits)
qed

lemma mountAudio_bounded: "amplitude_bounded (animationStateRef (mountAudio canvas env spectrum))"
  unfolding mountAudio_def
  by (rule initAudio_bounded)
     (simp add: amplitude_bounded_def initial_audio_def initial_anim_def IDLE_AMPLITUDE_def)

lemma run_bounded:
  "amplitude_bounded (animationStateRef w) \<Longrightarrow>
   amplitude_bounded (animationStateRef (fold displayRefresh spectra w))"
  by (induction spectra arbitrary: w) (simp_all add: displayRefresh_bounded)

lemma sumBins_replicate:
  "0 \<le> bin \<Longrightarrow> stop \<le> int n \<Longrightarrow>
   sumBins (replicate n v) bin stop acc = Some (acc + unat v * nat (stop - bin))"
proof (induction "replicate n v" bin stop acc rule: sumBins.induct)
  case (1 bin stop acc)
  show ?case
  proof (cases "bin < stop")
    case True
    with "1.prems" have rd: "readByte (replicate n v) bin = Some (unat v)"
      by (simp add: readByte_def nat_less_iff)
    have "sumBins (replicate n v) (bin + 1) stop (acc + unat v)
          = Some (acc + unat v + unat v * nat (stop - (bin + 1)))"
      using "1.hyps" [OF True rd] "1.prems" by simp
    moreover have "nat (stop - bin) = Suc (nat (stop - (bin + 1)))"
      using True by simp
    ultimately show ?thesis
      using True rd by (subst sumBins.simps) simp
  next
    case False
    then show ?thesis by (subst sumBins.simps) simp
  qed
qed

lemma average_replicate: "0 < n \<Longrightarrow> average n (replicate n v) = Some (real (unat v))"
  by (simp add: average_def sumBins_replicate)

text \<open>
  C9. The frequency data are bytes, so each is at most 255 by its type. Then the average is
  at most 255, the clamp against \<open>MAX_AMPLITUDE\<close> leaves half the average as it is, the
  target amplitude is \<open>IDLE_AMPLITUDE\<close> or at most 127.5, and the base amplitude, which
  starts at 10, is in the interval from 7.5 to 127.5 after mounting and any sequence of
  display refreshes, whatever the spectra.
\<close>
theorem amplitude_stays_bounded:
  "(\<forall>a. average len arr = Some a \<longrightarrow>
        a \<le> 255 \<and> min MAX_AMPLITUDE (a * 0.5) = a * 0.5 \<and> a * 0.5 \<le> 127.5)
   \<and> (targetAmplitude (updateState (average len arr) state) = IDLE_AMPLITUDE
        \<or> targetAmplitude (updateState (average len arr) state) \<le> 127.5)
   \<and> baseAmplitude (animationStateRef (initial_audio canvas)) = 10
   \<and> 7.5 \<le> baseAmplitude (animationStateRef (fold displayRefresh spectra (mountAudio canvas env spectrum)))
   \<and> baseAmplitude (animationStateRef (fold displayRefresh spectra (mountAudio canvas env spectrum))) \<le> 127.5"
proof -
  have clamp: "\<forall>a. average len arr = Some a \<longrightarrow>
        a \<le> 255 \<and> min MAX_AMPLITUDE (a * 0.5) = a * 0.5 \<and> a * 0.5 \<le> 127.5"
  proof (intro allI impI)
    fix a assume "average len arr = Some a"
    then have "a \<le> 255" using average_range by blast
    then show "a \<le> 255 \<and> min MAX_AMPLITUDE (a * 0.5) = a * 0.5 \<and> a * 0.5 \<le> 127.5"
      by (simp add: MAX_AMPLITUDE_def min_def)
  qed
  have target: "targetAmplitude (updateState (average len arr) state) = IDLE_AMPLITUDE
        \<or> targetAmplitude (updateState (average len arr) state) \<le> 127.5"
    using updateState_target [of "average len arr" state] average_range [of len arr] by blast
  have start: "baseAmplitude (animationStateRef (initial_audio canvas)) = 10"
    by (simp add: initial_audio_def initial_anim_def IDLE_AMPLITUDE_def)
  have "amplitude_bounded (animationStateRef (fold displayRefresh spectra (mountAudio canvas env spectrum)))"
    by (rule run_bounded [OF mountAudio_bounded])
  then show ?thesis
    using clamp target start unfolding amplitude_bounded_def by blast
qed

theorem amplitude_stays_bounded_witness:
  "average 1024 full_scale = Some 255
   \<and> (255::real) \<le> 255 \<and> min MAX_AMPLITUDE (255 * 0.5) = 255 * 0.5
   \<and> baseAmplitude (animationStateRef
        (fold displayRefresh [full_scale, silence]
           (mountAudio (Some example_canvas) example_env full_scale))) \<le> 127.5"
proof -
  have avg: "average 1024 full_scale = Some 255"
    by (simp add: full_scale_def average_replicate)
  show ?thesis
    using avg amplitude_stays_bounded [of 1024 full_scale initial_anim "Some example_canvas"
        "[full_scale, silence]" example_env full_scale]
    by simp
qed

subsection \<open>The ends of a curve\<close>

lemma amplitude_at_ends: "amplitude state 0 = 0" "amplitude state 1 = 0"
  by (simp_all add: amplitude_def enhancedEdgeFactor_def edgeFactor_def Let_def)

lemma waveformValue_at_ends:
  assumes "lineIndex < NUM_LINES" and "length arr = len" and "t = 0 \<or> t = 1"
  shows "waveformValue state len arr lineIndex t = Some 0"
proof -
  have amp: "amplitude state t = 0"
    using assms(3) amplitude_at_ends by auto
  obtain v where v: "freqAvg len arr lineIndex = Some v"
    using freqAvg_defined [OF assms(1,2)] by blast
  show ?thesis
    by (simp add: waveformValue_def amp v Let_def)
qed

lemma linePoint_first:
  assumes "lineIndex < NUM_LINES" and "length arr = len"
  shows "snd (linePoint state len arr w h lineIndex 0) = Some (h / 2)"
  using waveformValue_at_ends [OF assms, of 0 state]
  by (simp add: linePoint_def Let_def)

lemma linePoint_last:
  assumes "lineIndex < NUM_LINES" and "length arr = len"
  shows "snd (linePoint state len arr w h lineIndex points) = Some (h / 2)"
proof -
  have "real points / real points = 1" by (simp add: points_def)
  then show ?thesis
    using waveformValue_at_ends [OF assms, of 1 state]
    by (simp add: linePoint_def Let_def)
qed

lemma drawLine_ends:
  assumes "lineIndex < NUM_LINES" and "length arr = len"
  shows "snd (hd (pathPoints (drawLine state len arr w h lineIndex))) = Some (h / 2)"
    and "snd (last (pathPoints (drawLine state len arr w h lineIndex))) = Some (h / 2)"
proof -
  have "hd (pathPoints (drawLine state len arr w h lineIndex))
        = linePoint state len arr w h lineIndex 0"
    by (simp add: drawLine_def Let_def hd_map del: upt_Suc)
  then show "snd (hd (pathPoints (drawLine state len arr w h lineIndex))) = Some (h / 2)"
    using linePoint_first [OF assms] by simp
  have "last (pathPoints (drawLine state len arr w h lineIndex))
        = linePoint state len arr w h lineIndex points"
    by (simp add: drawLine_def Let_def last_map)
  then show "snd (last (pathPoints (drawLine state len arr w h lineIndex))) = Some (h / 2)"
    using linePoint_last [OF assms] by simp
qed

lemma length_getByteFrequencyData: "length (getByteFrequencyData spectrum arr) = length arr"
  by (simp add: getByteFrequencyData_def)

lemma drawWaveforms_picture:
  "picture (fst (drawWaveforms canvas spectrum w))
     = map (drawLine (animationStateRef (snd (drawWaveforms canvas spectrum w)))
              (bufferLength w) (getByteFrequencyData spectrum (dataArray w))
              (real (width (fst (drawWaveforms canvas spectrum w))))
              (real (height (fst (drawWaveforms canvas spectrum w)))))
         [0..<NUM_LINES]"
  by (simp add: drawWaveforms_def requestAnimationFrame_def Let_def split: option.splits prod.splits)

lemma drawWaveforms_height:
  "height (fst (drawWaveforms canvas spectrum w))
     = (case parentElement canvas of Some (cw, ch) \<Rightarrow> ch | None \<Rightarrow> height canvas)"
  by (simp add: drawWaveforms_def requestAnimationFrame_def Let_def split: option.splits prod.splits)

lemma drawWaveforms_lengths:
  "bufferLength (snd (drawWaveforms canvas spectrum w)) = bufferLength w"
  "length (dataArray (snd (drawWaveforms canvas spectrum w))) = length (dataArray w)"
  by (simp_all add: drawWaveforms_def requestAnimationFrame_def Let_def
        length_getByteFrequencyData split: prod.splits)

lemma runCallback_allocated:
  "array_allocated w \<Longrightarrow> array_allocated (runCallback spectrum w)"
  by (cases "canvasRef w")
     (simp_all add: runCallback_def array_allocated_def case_prod_beta drawWaveforms_lengths)

lemma fold_runCallback_allocated:
  "array_allocated w \<Longrightarrow> array_allocated (fold (\<lambda>ident. runCallback spectrum) ids w)"
  by (induction ids arbitrary: w) (simp_all add: runCallback_allocated)

lemma displayRefresh_allocated:
  assumes "array_allocated w"
  shows "array_allocated (displayRefresh spectrum w)"
  unfolding displayRefresh_def Let_def
  by (rule fold_runCallback_allocated) (use assms in \<open>simp add: array_allocated_def\<close>)

lemma startDrawing_allocated:
  assumes "array_allocated w"
  shows "array_allocated (startDrawing a spectrum w)"
proof (cases "canvasRef w")
  case None
  then show ?thesis using assms by (simp add: startDrawing_def)
next
  case (Some canvas)
  then show ?thesis
    using assms
    by (simp add: startDrawing_def Let_def case_prod_beta array_allocated_def drawWaveforms_lengths)
qed

lemma initAudio_allocated:
  assumes "array_allocated w"
  shows "array_allocated (initAudio env spectrum w)"
proof -
  have "array_allocated (snd (tryInitAudio env spectrum w))"
  proof (cases "getUserMedia env")
    case (Inl err)
    then show ?thesis using assms by (simp add: tryInitAudio_def)
  next
    case (Inr stream)
    show ?thesis
    proof (cases "newAudioContext env")
      case (Some err)
      then show ?thesis using Inr assms
        by (simp add: tryInitAudio_def Let_def array_allocated_def)
    next
      case None
      then show ?thesis using Inr assms
        by (simp add: tryInitAudio_def Let_def)
           (rule startDrawing_allocated, simp add: array_allocated_def)
    qed
  qed
  moreover have "array_allocated (catchInitAudio err v) = array_allocated v" for err v
    by (simp add: catchInitAudio_def Let_def array_allocated_def)
  ultimately show ?thesis
    by (auto simp: initAudio_def split: prod.splits option.splits)
qed

lemma reachable_allocated:
  "array_allocated (fold displayRefresh spectra (mountAudio canvas env spectrum))"
proof -
  have "array_allocated (mountAudio canvas env spectrum)"
    unfolding mountAudio_def
    by (rule initAudio_allocated) (simp add: array_allocated_def initial_audio_def)
  moreover have "array_allocated v \<Longrightarrow> array_allocated (fold displayRefresh spectra v)" for v
    by (induction spectra arbitrary: v) (simp_all add: displayRefresh_allocated)
  ultimately show ?thesis by blast
qed

text \<open>
  C10. Every drawn curve starts and ends at the vertical centre of the canvas. For every
  animation state (active or idle) and every line index below \<open>NUM_LINES\<close>, the points of
  index 0 and of index \<open>points\<close> have \<open>y = centerY\<close>; and in every frame drawn on a state
  whose data array has the buffer length, the picture has \<open>NUM_LINES\<close> paths of
  \<open>points + 1\<close> points each, whose first and last points have \<open>y\<close> equal to half the canvas
  height.
\<close>
theorem curves_anchored_at_centre:
  assumes "length (dataArray w) = bufferLength w"
  shows "(\<forall>lineIndex < NUM_LINES.
            snd (linePoint state (bufferLength w) (dataArray w) cw ch lineIndex 0) = Some (ch / 2)
          \<and> snd (linePoint state (bufferLength w) (dataArray w) cw ch lineIndex points) = Some (ch / 2))
       \<and> length (picture (fst (drawWaveforms canvas spectrum w))) = NUM_LINES
       \<and> (\<forall>path \<in> set (picture (fst (drawWaveforms canvas spectrum w))).
            length (pathPoints path) = points + 1
          \<and> snd (hd (pathPoints path)) = Some (real (height (fst (drawWaveforms canvas spectrum w))) / 2)
          \<and> snd (last (pathPoints path)) = Some (real (height (fst (drawWaveforms canvas spectrum w))) / 2))"
proof -
  have pts: "\<forall>lineIndex < NUM_LINES.
            snd (linePoint state (bufferLength w) (dataArray w) cw ch lineIndex 0) = Some (ch / 2)
          \<and> snd (linePoint state (bufferLength w) (dataArray w) cw ch lineIndex points) = Some (ch / 2)"
    using linePoint_first linePoint_last assms by blast
  have len: "length (getByteFrequencyData spectrum (dataArray w)) = bufferLength w"
    using assms by (simp add: length_getByteFrequencyData)
  have n: "length (picture (fst (drawWaveforms canvas spectrum w))) = NUM_LINES"
    by (subst drawWaveforms_picture) simp
  have paths: "\<forall>path \<in> set (picture (fst (drawWaveforms canvas spectrum w))).
            length (pathPoints path) = points + 1
          \<and> snd (hd (pathPoints path)) = Some (real (height (fst (drawWaveforms canvas spectrum w))) / 2)
          \<and> snd (last (pathPoints path)) = Some (real (height (fst (drawWaveforms canvas spectrum w))) / 2)"
  proof
    fix path assume "path \<in> set (picture (fst (drawWaveforms canvas spectrum w)))"
    then obtain lineIndex where l: "lineIndex < NUM_LINES"
      and p: "path = drawLine (animationStateRef (snd (drawWaveforms canvas spectrum w)))
              (bufferLength w) (getByteFrequencyData spectrum (dataArray w))
              (real (width (fst (drawWaveforms canvas spectrum w))))
              (real (height (fst (drawWaveforms canvas spectrum w)))) lineIndex"
      by (subst (asm) drawWaveforms_picture) auto
    have "length (pathPoints path) = points + 1"
      unfolding p by (simp add: drawLine_def Let_def)
    then show "length (pathPoints path) = points + 1
          \<and> snd (hd (pathPoints path)) = Some (real (height (fst (drawWaveforms canvas spectrum w))) / 2)
          \<and> snd (last (pathPoints path)) = Some (real (height (fst (drawWaveforms canvas spectrum w))) / 2)"
      unfolding p using drawLine_ends [OF l len] by simp
  qed
  show ?thesis using pts n paths by blast
qed

theorem curves_anchored_at_centre_witness:
  "length (dataArray (mountAudio (Some example_canvas) example_env full_scale))
     = bufferLength (mountAudio (Some example_canvas) example_env full_scale)
   \<and> snd (linePoint initial_anim
        (bufferLength (mountAudio (Some example_canvas) example_env full_scale))
        (dataArray (mountAudio (Some example_canvas) example_env full_scale)) 800 600 3 0) = Some 300
   \<and> snd (last (pathPoints (hd (picture (fst (drawWaveforms example_canvas silence
        (mountAudio (Some example_canvas) example_env full_scale))))))) = Some 300"
proof -
  let ?w = "mountAudio (Some example_canvas) example_env full_scale"
  have a: "length (dataArray ?w) = bufferLength ?w"
    using reachable_allocated [of "[]" "Some example_canvas" example_env full_scale]
    by (simp add: array_allocated_def)
  note inst = curves_anchored_at_centre [OF a, of initial_anim 800 600 example_canvas silence]
  have h: "real (height (fst (drawWaveforms example_canvas silence ?w))) / 2 = 300"
    by (simp add: drawWaveforms_height example_canvas_def)
  have "picture (fst (drawWaveforms example_canvas silence ?w)) \<noteq> []"
    using inst by (auto simp: NUM_LINES_def)
  then have "hd (picture (fst (drawWaveforms example_canvas silence ?w)))
             \<in> set (picture (fst (drawWaveforms example_canvas silence ?w)))"
    by simp
  then have "snd (last (pathPoints (hd (picture (fst (drawWaveforms example_canvas silence ?w))))))
             = Some 300"
    using inst h by (metis (no_types, lifting))
  moreover have "snd (linePoint initial_anim (bufferLength ?w) (dataArray ?w) 800 600 3 0) = Some 300"
    using inst by (simp add: NUM_LINES_def)
  ultimately show ?thesis using a by blast
qed

subsection \<open>The drawing loop\<close>

lemma drawWaveforms_raf:
  "rafPending (snd (drawWaveforms canvas spectrum w)) = rafPending w @ [rafCounter w + 1]"
  "rafCounter (snd (drawWaveforms canvas spectrum w)) = rafCounter w + 1"
  "animationRef (snd (drawWaveforms canvas spectrum w)) = Some (rafCounter w + 1)"
  by (simp_all add: drawWaveforms_def requestAnimationFrame_def Let_def split: prod.splits)

lemma runCallback_raf:
  assumes "canvasRef w \<noteq> None"
  shows "rafPending (runCallback spectrum w) = rafPending w @ [rafCounter w + 1]"
    and "rafCounter (runCallback spectrum w) = rafCounter w + 1"
    and "animationRef (runCallback spectrum w) = Some (rafCounter w + 1)"
    and "canvasRef (runCallback spectrum w) \<noteq> None"
  using assms by (auto simp: runCallback_def case_prod_beta drawWaveforms_raf)

lemma displayRefresh_single:
  assumes "canvasRef w \<noteq> None" and "rafPending w = [ident]"
  shows "rafPending (displayRefresh spectrum w) = [rafCounter w + 1]"
    and "rafCounter (displayRefresh spectrum w) = rafCounter w + 1"
    and "animationRef (displayRefresh spectrum w) = Some (rafCounter w + 1)"
    and "canvasRef (displayRefresh spectrum w) \<noteq> None"
proof -
  let ?v = "w\<lparr>rafPending := []\<rparr>"
  have eq: "displayRefresh spectrum w = runCallback spectrum ?v"
    using assms(2) by (simp add: displayRefresh_def Let_def)
  have c: "canvasRef ?v \<noteq> None" using assms(1) by simp
  show "rafPending (displayRefresh spectrum w) = [rafCounter w + 1]"
    unfolding eq runCallback_raf(1) [OF c] by simp
  show "rafCounter (displayRefresh spectrum w) = rafCounter w + 1"
    unfolding eq runCallback_raf(2) [OF c] by simp
  show "animationRef (displayRefresh spectrum w) = Some (rafCounter w + 1)"
    unfolding eq runCallback_raf(3) [OF c] by simp
  show "canvasRef (displayRefresh spectrum w) \<noteq> None"
    unfolding eq by (rule runCallback_raf(4) [OF c])
qed

lemma refreshes_keep_one_pending:
  assumes "canvasRef w \<noteq> None" and "rafPending w = [rafCounter w]"
  shows "rafPending (fold displayRefresh spectra w) = [rafCounter w + length spectra]
       \<and> rafCounter (fold displayRefresh spectra w) = rafCounter w + length spectra
       \<and> canvasRef (fold displayRefresh spectra w) \<noteq> None"
  using assms
proof (induction spectra arbitrary: w)
  case Nil
  then show ?case by simp
next
  case (Cons spectrum spectra)
  let ?v = "displayRefresh spectrum w"
  have v: "canvasRef ?v \<noteq> None" "rafPending ?v = [rafCounter ?v]"
    using displayRefresh_single [OF Cons.prems] by simp_all
  have "rafCounter ?v = rafCounter w + 1"
    using displayRefresh_single [OF Cons.prems] by simp
  then show ?case
    using Cons.IH [OF v] by simp
qed

lemma startDrawing_raf:
  assumes "canvasRef w = Some canvas" and "context2d canvas" and "rafPending w = []"
  shows "rafPending (startDrawing a spectrum w) = [rafCounter w + 1]"
    and "rafCounter (startDrawing a spectrum w) = rafCounter w + 1"
    and "canvasRef (startDrawing a spectrum w) \<noteq> None"
  using assms by (simp_all add: startDrawing_def Let_def case_prod_beta drawWaveforms_raf)

text \<open>
  C5. Whatever the state, one invocation of the drawing callback registers exactly one
  animation-frame callback. If the canvas and its 2D context exist when drawing starts (and
  nothing is registered yet), then after \<open>startDrawing\<close> and any number of display
  refreshes exactly one callback is pending, the one the last invocation registered: the
  loop does not stop by itself.
\<close>
theorem drawing_reschedules_itself:
  assumes "canvasRef w = Some canvas" and "context2d canvas" and "rafPending w = []"
  shows "rafPending (snd (drawWaveforms canvas' spectrum' w')) = rafPending w' @ [rafCounter w' + 1]
       \<and> rafPending (fold displayRefresh spectra (startDrawing a spectrum w))
           = [rafCounter w + 1 + length spectra]
       \<and> rafCounter (fold displayRefresh spectra (startDrawing a spectrum w))
           = rafCounter w + 1 + length spectra"
proof -
  let ?v = "startDrawing a spectrum w"
  have v: "canvasRef ?v \<noteq> None" "rafPending ?v = [rafCounter ?v]"
    using startDrawing_raf [OF assms] by simp_all
  have "rafCounter ?v = rafCounter w + 1"
    using startDrawing_raf [OF assms] by simp
  then show ?thesis
    using refreshes_keep_one_pending [OF v, of spectra] drawWaveforms_raf(1) by simp
qed

theorem drawing_reschedules_itself_witness:
  "canvasRef (initial_audio (Some example_canvas)) = Some example_canvas
   \<and> context2d example_canvas
   \<and> rafPending (initial_audio (Some example_canvas)) = []
   \<and> rafPending (fold displayRefresh [silence, full_scale, silence]
        (startDrawing \<lparr>fftSize = 2048, smoothingTimeConstant = 0.85\<rparr> silence
           (initial_audio (Some example_canvas)))) = [4]"
proof -
  have c: "canvasRef (initial_audio (Some example_canvas)) = Some example_canvas"
    by (simp add: initial_audio_def)
  have x: "context2d example_canvas"
    by (simp add: example_canvas_def)
  have p: "rafPending (initial_audio (Some example_canvas)) = []"
    by (simp add: initial_audio_def)
  have n: "rafCounter (initial_audio (Some example_canvas)) = 0"
    by (simp add: initial_audio_def)
  show ?thesis
    using c x p n drawing_reschedules_itself [OF c x p, of example_canvas silence
        "initial_audio None" "[silence, full_scale, silence]"
        "\<lparr>fftSize = 2048, smoothingTimeConstant = 0.85\<rparr>" silence]
    by simp
qed

subsection \<open>Errors of the microphone initialisation\<close>

lemma messages_distinct:
  "MSG_AUDIO_INIT_FAILED \<noteq> MSG_MIC_NOT_ALLOWED" "MSG_AUDIO_INIT_FAILED \<noteq> MSG_MIC_NOT_FOUND"
  "MSG_MIC_NOT_ALLOWED \<noteq> MSG_MIC_NOT_FOUND"
  by (simp_all add: MSG_AUDIO_INIT_FAILED_def MSG_MIC_NOT_ALLOWED_def MSG_MIC_NOT_FOUND_def utf8_def)

lemma messages_nonempty:
  "MSG_AUDIO_INIT_FAILED \<noteq> []" "MSG_MIC_NOT_ALLOWED \<noteq> []" "MSG_MIC_NOT_FOUND \<noteq> []"
  by (simp_all add: MSG_AUDIO_INIT_FAILED_def MSG_MIC_NOT_ALLOWED_def MSG_MIC_NOT_FOUND_def utf8_def)

lemma micMessage_nonempty: "micMessage err \<noteq> []"
  by (simp add: micMessage_def messages_nonempty)

lemma catchInitAudio_error: "error (catchInitAudio err w) = Some (micMessage err)"
  by (simp add: catchInitAudio_def micMessage_def Let_def)

lemma catchInitAudio_frame:
  "(catchInitAudio err w)\<lparr>error := error w, console := console w\<rparr> = w"
  by (simp add: catchInitAudio_def Let_def)

text \<open>
  C1, as amended. For every failure of the microphone initialisation (a value thrown in
  the \<open>try\<close> block) the error shown is one of three strings: the permission message for
  \<open>NotAllowedError\<close>, the device message for \<open>NotFoundError\<close>, and a general
  initialisation message for every other thrown value. The component then renders that
  message with a retry button which reloads the window. The handler itself changes only the
  error string and the console: it does not retry, and it releases nothing that was
  acquired before the throw.
\<close>
theorem mic_failure_message:
  assumes "tryInitAudio env spectrum w = (Some err, w')"
  shows "error (initAudio env spectrum w) = Some (micMessage err)
       \<and> (micMessage err = MSG_MIC_NOT_ALLOWED \<or> micMessage err = MSG_MIC_NOT_FOUND
            \<or> micMessage err = MSG_AUDIO_INIT_FAILED)
       \<and> renderAudio (initAudio env spectrum w)
            = ErrorMessage (micMessage err) (LABEL_RETRY, ReloadWindow)
       \<and> (initAudio env spectrum w)\<lparr>error := error w', console := console w'\<rparr> = w'"
proof -
  have i: "initAudio env spectrum w = catchInitAudio err w'"
    using assms by (simp add: initAudio_def)
  have "renderAudio (catchInitAudio err w') = ErrorMessage (micMessage err) (LABEL_RETRY, ReloadWindow)"
    by (simp add: renderAudio_def catchInitAudio_error micMessage_nonempty)
  moreover have "micMessage err = MSG_MIC_NOT_ALLOWED \<or> micMessage err = MSG_MIC_NOT_FOUND
            \<or> micMessage err = MSG_AUDIO_INIT_FAILED"
    by (simp add: micMessage_def)
  ultimately show ?thesis
    unfolding i using catchInitAudio_error catchInitAudio_frame by simp
qed

theorem mic_failure_message_witness:
  "tryInitAudio \<lparr>getUserMedia = Inl (Thrown ''NotFoundError''), newAudioContext = None\<rparr> silence
      (initial_audio (Some example_canvas))
     = (Some (Thrown ''NotFoundError''), initial_audio (Some example_canvas))
   \<and> error (initAudio \<lparr>getUserMedia = Inl (Thrown ''NotFoundError''), newAudioContext = None\<rparr>
        silence (initial_audio (Some example_canvas))) = Some MSG_MIC_NOT_FOUND
   \<and> renderAudio (initAudio \<lparr>getUserMedia = Inl (Thrown ''NotFoundError''), newAudioContext = None\<rparr>
        silence (initial_audio (Some example_canvas)))
       = ErrorMessage MSG_MIC_NOT_FOUND (LABEL_RETRY, ReloadWindow)"
proof -
  have t: "tryInitAudio \<lparr>getUserMedia = Inl (Thrown ''NotFoundError''), newAudioContext = None\<rparr>
      silence (initial_audio (Some example_canvas))
     = (Some (Thrown ''NotFoundError''), initial_audio (Some example_canvas))"
    by (simp add: tryInitAudio_def)
  have m: "micMessage (Thrown ''NotFoundError'') = MSG_MIC_NOT_FOUND"
    by (simp add: micMessage_def)
  show ?thesis
    using t m mic_failure_message [OF t] by simp
qed

text \<open>
  C1 as stated fails: when the microphone request is rejected with \<open>NotReadableError\<close> the
  error shown is a third string, neither the permission message nor the device message, and
  the view that shows it presents a retry button.
\<close>
theorem mic_error_messages_counterexample:
  "error (mountAudio (Some example_canvas)
       \<lparr>getUserMedia = Inl (Thrown ''NotReadableError''), newAudioContext = None\<rparr> silence)
     = Some MSG_AUDIO_INIT_FAILED
   \<and> MSG_AUDIO_INIT_FAILED \<noteq> MSG_MIC_NOT_ALLOWED
   \<and> MSG_AUDIO_INIT_FAILED \<noteq> MSG_MIC_NOT_FOUND
   \<and> renderAudio (mountAudio (Some example_canvas)
       \<lparr>getUserMedia = Inl (Thrown ''NotReadableError''), newAudioContext = None\<rparr> silence)
     = ErrorMessage MSG_AUDIO_INIT_FAILED (LABEL_RETRY, ReloadWindow)"
proof -
  have "mountAudio (Some example_canvas)
       \<lparr>getUserMedia = Inl (Thrown ''NotReadableError''), newAudioContext = None\<rparr> silence
     = catchInitAudio (Thrown ''NotReadableError'') (initial_audio (Some example_canvas))"
    by (simp add: mountAudio_def initAudio_def tryInitAudio_def)
  moreover have "micMessage (Thrown ''NotReadableError'') = MSG_AUDIO_INIT_FAILED"
    by (simp add: micMessage_def)
  ultimately show ?thesis
    by (simp add: catchInitAudio_error renderAudio_def messages_distinct messages_nonempty)
qed

subsection \<open>A run of the component, step by step\<close>

lemma updateState_speeds:
  "rotationSpeed (updateState avg state) = rotationSpeed state"
  "breathSpeed (updateState avg state) = breathSpeed state"
  by (simp_all add: updateState_def Let_def)

lemma drawWaveforms_untouched:
  "untouched (snd (drawWaveforms canvas spectrum w)) = untouched w"
  by (simp add: untouched_def drawWaveforms_def requestAnimationFrame_def Let_def
        updateState_speeds split: prod.splits)

lemma runCallback_untouched: "untouched (runCallback spectrum w) = untouched w"
proof (cases "canvasRef w")
  case None
  then show ?thesis by (simp add: runCallback_def)
next
  case (Some canvas)
  have "untouched (runCallback spectrum w) = untouched (snd (drawWaveforms canvas spectrum w))"
    using Some by (simp add: runCallback_def case_prod_beta untouched_def)
  then show ?thesis by (simp add: drawWaveforms_untouched)
qed

lemma runCallback_bufferLength: "bufferLength (runCallback spectrum w) = bufferLength w"
  by (cases "canvasRef w") (simp_all add: runCallback_def case_prod_beta drawWaveforms_lengths)

lemma fold_runCallback_untouched:
  "untouched (fold (\<lambda>ident. runCallback spectrum) ids w) = untouched w"
  "bufferLength (fold (\<lambda>ident. runCallback spectrum) ids w) = bufferLength w"
  by (induction ids arbitrary: w) (simp_all add: runCallback_untouched runCallback_bufferLength)

lemma displayRefresh_untouched:
  "untouched (displayRefresh spectrum w) = untouched w"
  "bufferLength (displayRefresh spectrum w) = bufferLength w"
  by (simp_all add: displayRefresh_def Let_def fold_runCallback_untouched) (simp add: untouched_def)

lemma startDrawing_untouched: "untouched (startDrawing a spectrum w) = untouched w"
proof (cases "canvasRef w")
  case None
  then show ?thesis by (simp add: startDrawing_def)
next
  case (Some canvas)
  let ?v = "w\<lparr>bufferLength := frequencyBinCount a,
               dataArray := replicate (frequencyBinCount a) 0\<rparr>"
  have "untouched (startDrawing a spectrum w) = untouched w
      \<or> untouched (startDrawing a spectrum w) = untouched (snd (drawWaveforms canvas spectrum ?v))"
    using Some by (simp add: startDrawing_def Let_def case_prod_beta untouched_def)
  moreover have "untouched ?v = untouched w" by (simp add: untouched_def)
  ultimately show ?thesis by (auto simp: drawWaveforms_untouched)
qed

lemma getByteFrequencyData_full:
  "length spectrum = length arr \<Longrightarrow> getByteFrequencyData spectrum arr = spectrum"
  by (simp add: getByteFrequencyData_def)

lemma drawWaveforms_dataArray:
  "dataArray (snd (drawWaveforms canvas spectrum w)) = getByteFrequencyData spectrum (dataArray w)"
  by (simp add: drawWaveforms_def requestAnimationFrame_def Let_def split: prod.splits)

lemma drawWaveforms_size:
  "width (fst (drawWaveforms canvas spectrum w))
     = (case parentElement canvas of Some (cw, ch) \<Rightarrow> cw | None \<Rightarrow> width canvas)"
  "parentElement (fst (drawWaveforms canvas spectrum w)) = parentElement canvas"
  "context2d (fst (drawWaveforms canvas spectrum w)) = context2d canvas"
  by (simp_all add: drawWaveforms_def requestAnimationFrame_def Let_def split: option.splits prod.splits)

text \<open>The state in which the drawing loop runs: a canvas is held, one callback is pending.\<close>
lemma displayRefresh_step:
  assumes "canvasRef w = Some canvas" and "rafPending w = [ident]"
  shows "canvasRef (displayRefresh spectrum w)
           = Some (fst (drawWaveforms canvas spectrum (w\<lparr>rafPending := []\<rparr>)))"
    and "animationStateRef (displayRefresh spectrum w)
           = updateState (average (bufferLength w) (getByteFrequencyData spectrum (dataArray w)))
               (animationStateRef w)"
    and "dataArray (displayRefresh spectrum w) = getByteFrequencyData spectrum (dataArray w)"
proof -
  let ?v = "w\<lparr>rafPending := []\<rparr>"
  have eq: "displayRefresh spectrum w = runCallback spectrum ?v"
    using assms(2) by (simp add: displayRefresh_def Let_def)
  show "canvasRef (displayRefresh spectrum w) = Some (fst (drawWaveforms canvas spectrum ?v))"
    unfolding eq using assms(1) by (simp add: runCallback_def case_prod_beta)
  show "animationStateRef (displayRefresh spectrum w)
           = updateState (average (bufferLength w) (getByteFrequencyData spectrum (dataArray w)))
               (animationStateRef w)"
    unfolding eq using assms(1) by (simp add: runCallback_def case_prod_beta drawWaveforms_anim)
  show "dataArray (displayRefresh spectrum w) = getByteFrequencyData spectrum (dataArray w)"
    unfolding eq using assms(1) by (simp add: runCallback_def case_prod_beta drawWaveforms_dataArray)
qed

lemma startDrawing_step:
  assumes "canvasRef w = Some canvas" and "context2d canvas"
  shows "canvasRef (startDrawing a spectrum w)
           = Some (fst (drawWaveforms canvas spectrum
                (w\<lparr>bufferLength := frequencyBinCount a,
                   dataArray := replicate (frequencyBinCount a) 0\<rparr>)))"
    and "animationStateRef (startDrawing a spectrum w)
           = updateState (average (frequencyBinCount a)
                 (getByteFrequencyData spectrum (replicate (frequencyBinCount a) 0)))
               (animationStateRef w)"
    and "dataArray (startDrawing a spectrum w)
           = getByteFrequencyData spectrum (replicate (frequencyBinCount a) 0)"
    and "bufferLength (startDrawing a spectrum w) = frequencyBinCount a"
    and "animationRef (startDrawing a spectrum w) = Some (rafCounter w + 1)"
  using assms
  by (simp_all add: startDrawing_def Let_def case_prod_beta drawWaveforms_anim
        drawWaveforms_dataArray drawWaveforms_lengths drawWaveforms_raf)

text \<open>The world just before \<open>startDrawing\<close> when the microphone is granted.\<close>
lemma mountAudio_granted:
  "mountAudio canvas \<lparr>getUserMedia = Inr stream, newAudioContext = None\<rparr> spectrum
     = startDrawing \<lparr>fftSize = 2048, smoothingTimeConstant = 0.85\<rparr> spectrum
         ((initial_audio canvas)\<lparr>streams := [stream], mediaStreamRef := Some 0,
            contexts := [Running], sources := [True], sourceRef := Some 0,
            audioContext := Some 0,
            analyser := Some \<lparr>fftSize = 2048, smoothingTimeConstant = 0.85\<rparr>,
            isListening := True\<rparr>)"
  by (simp add: mountAudio_def initAudio_def tryInitAudio_def Let_def initial_audio_def)

lemma frequencyBinCount_2048 [simp]:
  "frequencyBinCount \<lparr>fftSize = 2048, smoothingTimeConstant = s\<rparr> = 1024"
  by (simp add: frequencyBinCount_def)

lemma mounted_fields:
  fixes canvas :: canvas_element and spectrum :: "byte list"
  defines "w \<equiv> mountAudio (Some canvas) example_env spectrum"
  assumes "context2d canvas"
  shows "streams w = [[Live]]" and "contexts w = [Running]" and "sources w = [True]"
    and "audioContext w = Some 0" and "mediaStreamRef w = Some 0" and "sourceRef w = Some 0"
    and "isListening w" and "error w = None"
    and "rafPending w = [1]" and "rafCounter w = 1" and "animationRef w = Some 1"
    and "canvasRef w \<noteq> None"
    and "bufferLength w = 1024"
    and "dataArray w = getByteFrequencyData spectrum (replicate 1024 0)"
    and "animationStateRef w
           = updateState (average 1024 (getByteFrequencyData spectrum (replicate 1024 0))) initial_anim"
proof -
  let ?a = "\<lparr>fftSize = 2048, smoothingTimeConstant = 0.85\<rparr>"
  let ?v = "(initial_audio (Some canvas))\<lparr>streams := [[Live]], mediaStreamRef := Some 0,
            contexts := [Running], sources := [True], sourceRef := Some 0,
            audioContext := Some 0, analyser := Some ?a, isListening := True\<rparr>"
  have w: "w = startDrawing ?a spectrum ?v"
    unfolding w_def example_env_def by (rule mountAudio_granted)
  have c: "canvasRef ?v = Some canvas" and p: "rafPending ?v = []" and n: "rafCounter ?v = 0"
    and st: "animationStateRef ?v = initial_anim"
    by (simp_all add: initial_audio_def)
  have u: "untouched w = untouched ?v"
    unfolding w by (rule startDrawing_untouched)
  show "streams w = [[Live]]" "contexts w = [Running]" "sources w = [True]"
    "audioContext w = Some 0" "mediaStreamRef w = Some 0" "sourceRef w = Some 0"
    "isListening w" "error w = None"
    using u by (simp_all add: untouched_def initial_audio_def)
  show "rafPending w = [1]" "rafCounter w = 1" "canvasRef w \<noteq> None"
    unfolding w using startDrawing_raf [OF c assms(2) p, of ?a spectrum] n by simp_all
  show "animationRef w = Some 1" "bufferLength w = 1024"
    "dataArray w = getByteFrequencyData spectrum (replicate 1024 0)"
    "animationStateRef w
           = updateState (average 1024 (getByteFrequencyData spectrum (replicate 1024 0))) initial_anim"
    unfolding w using startDrawing_step [OF c assms(2), of ?a spectrum] n st by simp_all
qed

lemma updateState_quiet:
  "updateState (Some 0) state
     = state\<lparr>phase := phase state + 0.01,
             breathPhase := breathPhase state + breathSpeed state,
             rotationAngle := rotationAngle state + rotationSpeed state,
             active := False, targetAmplitude := 10,
             baseAmplitude := baseAmplitude state + (10 - baseAmplitude state) * 0.1\<rparr>"
  by (simp add: updateState_def Let_def NOISE_THRESHOLD_def IDLE_AMPLITUDE_def)

lemma updateState_loud:
  "updateState (Some 255) state
     = state\<lparr>phase := phase state + 0.01,
             breathPhase := breathPhase state + breathSpeed state,
             rotationAngle := rotationAngle state + rotationSpeed state,
             active := True, targetAmplitude := 127.5,
             baseAmplitude := baseAmplitude state + (127.5 - baseAmplitude state) * 0.1\<rparr>"
  by (simp add: updateState_def Let_def NOISE_THRESHOLD_def IDLE_AMPLITUDE_def MAX_AMPLITUDE_def)

lemma average_examples:
  assumes "length arr = 1024"
  shows "average 1024 (getByteFrequencyData silence arr) = Some 0"
    and "average 1024 (getByteFrequencyData full_scale arr) = Some 255"
  using assms
  by (simp_all add: getByteFrequencyData_full silence_def full_scale_def average_replicate)

subsection \<open>The state that changes across frames\<close>

text \<open>
  C4, as amended. The state that changes from frame to frame is wider than the three
  scalars the claim lists: a frame of the drawing loop writes the animation record's
  \<open>phase\<close>, \<open>breathPhase\<close>, \<open>rotationAngle\<close>, \<open>active\<close>, \<open>targetAmplitude\<close> and
  \<open>baseAmplitude\<close>, the frame identifier in \<open>animationRef\<close>, the data array and the
  canvas. Everything else is left as it was by every frame and every display refresh: the
  hook state (\<open>isListening\<close>, \<open>error\<close>, \<open>audioContext\<close>, \<open>analyser\<close>), the stream and source
  refs, the platform's streams, contexts and source nodes, the two speeds of the animation
  record, and the buffer length.
\<close>
theorem frame_leaves_rest_unchanged:
  "untouched (snd (drawWaveforms canvas spectrum w)) = untouched w
   \<and> bufferLength (snd (drawWaveforms canvas spectrum w)) = bufferLength w
   \<and> untouched (displayRefresh spectrum w) = untouched w
   \<and> bufferLength (displayRefresh spectrum w) = bufferLength w
   \<and> untouched (fold displayRefresh spectra w) = untouched w"
proof -
  have "untouched (fold displayRefresh spectra v) = untouched v" for v
    by (induction spectra arbitrary: v) (simp_all add: displayRefresh_untouched)
  then show ?thesis
    by (simp add: drawWaveforms_untouched drawWaveforms_lengths displayRefresh_untouched)
qed

text \<open>
  C4 as stated fails: variables outside the claim's list exist and change. From one frame
  to the next \<open>breathPhase\<close> goes from 20 to 40, \<open>active\<close> flips when the input becomes
  loud, and \<open>animationRef\<close> takes a new identifier; and the hook value \<open>audioContext\<close>
  changes from null to the context when the microphone is granted.
\<close>
theorem transient_state_counterexample:
  "breathPhase (animationStateRef (initial_audio (Some example_canvas))) = 0
   \<and> breathPhase (animationStateRef (mountAudio (Some example_canvas) example_env silence)) = 20
   \<and> breathPhase (animationStateRef
        (displayRefresh full_scale (mountAudio (Some example_canvas) example_env silence))) = 40
   \<and> active (animationStateRef (mountAudio (Some example_canvas) example_env silence)) = False
   \<and> active (animationStateRef
        (displayRefresh full_scale (mountAudio (Some example_canvas) example_env silence))) = True
   \<and> animationRef (mountAudio (Some example_canvas) example_env silence) = Some 1
   \<and> animationRef (displayRefresh full_scale (mountAudio (Some example_canvas) example_env silence))
        = Some 2
   \<and> audioContext (initial_audio (Some example_canvas)) = None
   \<and> audioContext (mountAudio (Some example_canvas) example_env silence) = Some 0"
proof -
  let ?w0 = "mountAudio (Some example_canvas) example_env silence"
  let ?w1 = "displayRefresh full_scale ?w0"
  have x: "context2d example_canvas" by (simp add: example_canvas_def)
  note m = mounted_fields [OF x, of silence]
  have s0: "animationStateRef ?w0 = updateState (Some 0) initial_anim"
    unfolding m(15) by (simp add: average_examples)
  obtain canvas where c: "canvasRef ?w0 = Some canvas"
    using m(12) by blast
  have len: "length (dataArray ?w0) = 1024"
    unfolding m(14) by (simp add: length_getByteFrequencyData)
  have s1: "animationStateRef ?w1 = updateState (Some 255) (updateState (Some 0) initial_anim)"
    unfolding displayRefresh_step(2) [OF c m(9)] m(13) s0 by (simp add: average_examples len)
  have r: "animationRef ?w1 = Some 2"
    using displayRefresh_single(3) [OF m(12) m(9), of full_scale] m(10) by simp
  show ?thesis
    unfolding s0 s1 updateState_quiet updateState_loud
    using r m(4) m(11) by (simp add: initial_anim_def initial_audio_def)
qed

subsection \<open>Unmounting\<close>

lemma cleanupAudio_contexts:
  "contexts (cleanupAudio seen w)
     = (case seen of Some context \<Rightarrow> (contexts w)[context := Closed] | None \<Rightarrow> contexts w)"
  by (simp add: cleanupAudio_def cancelAnimationFrame_def stopAllTracks_def Let_def
        split: option.splits)

lemma unmountAudio_contexts: "contexts (unmountAudio canvas w) = contexts w"
  by (simp add: unmountAudio_def cleanupAudio_contexts initial_audio_def)

lemma cleanupAudio_releases:
  "rafPending (cleanupAudio seen w)
     = (case animationRef w of
          Some ident \<Rightarrow> if ident \<noteq> 0 then filter (\<lambda>i. i \<noteq> ident) (rafPending w) else rafPending w
        | None \<Rightarrow> rafPending w)"
  "sources (cleanupAudio seen w)
     = (case sourceRef w of Some source \<Rightarrow> (sources w)[source := False] | None \<Rightarrow> sources w)"
  "streams (cleanupAudio seen w)
     = (case mediaStreamRef w of
          Some h \<Rightarrow> if h < length (streams w)
                    then (streams w)[h := map (\<lambda>track. Ended) (streams w ! h)] else streams w
        | None \<Rightarrow> streams w)"
  by (simp_all add: cleanupAudio_def cancelAnimationFrame_def stopAllTracks_def Let_def
        split: option.splits)

lemma cameraCleanup_stops_tracks:
  "streams (cameraCleanup (setupCamera (Inr stream) w)) ! length (streams w)
     = map (\<lambda>track. Ended) stream"
  by (simp add: cameraCleanup_def setupCamera_def stopAllTracks_def Let_def nth_append
        split: option.splits)

text \<open>
  C3 at a concrete run: the component mounts with the microphone granted, one display
  refresh passes, the component unmounts. The cleanup cancels the pending frame,
  disconnects the source and stops the track, but the audio context that \<open>initAudio\<close>
  created, and which the hook state holds, is still running: the cleanup closure is the
  first render's, where \<open>audioContext\<close> is null, so the test at line 260 fails and \<open>close\<close>
  is not called.
\<close>
theorem unmount_leaves_context_running:
  "audioContext (displayRefresh silence (mountAudio (Some example_canvas) example_env silence)) = Some 0
   \<and> contexts (displayRefresh silence (mountAudio (Some example_canvas) example_env silence)) = [Running]
   \<and> contexts (unmountAudio (Some example_canvas)
         (displayRefresh silence (mountAudio (Some example_canvas) example_env silence))) = [Running]
   \<and> streams (unmountAudio (Some example_canvas)
         (displayRefresh silence (mountAudio (Some example_canvas) example_env silence))) = [[Ended]]
   \<and> sources (unmountAudio (Some example_canvas)
         (displayRefresh silence (mountAudio (Some example_canvas) example_env silence))) = [False]
   \<and> rafPending (unmountAudio (Some example_canvas)
         (displayRefresh silence (mountAudio (Some example_canvas) example_env silence))) = []"
proof -
  let ?w0 = "mountAudio (Some example_canvas) example_env silence"
  let ?w1 = "displayRefresh silence ?w0"
  have x: "context2d example_canvas" by (simp add: example_canvas_def)
  note m = mounted_fields [OF x, of silence]
  have u: "untouched ?w1 = untouched ?w0"
    by (rule displayRefresh_untouched)
  have f: "streams ?w1 = [[Live]]" "contexts ?w1 = [Running]" "sources ?w1 = [True]"
    "audioContext ?w1 = Some 0" "mediaStreamRef ?w1 = Some 0" "sourceRef ?w1 = Some 0"
    using u m by (simp_all add: untouched_def)
  have r: "rafPending ?w1 = [2]" "animationRef ?w1 = Some 2"
    using displayRefresh_single [OF m(12) m(9), of silence] m(10) by simp_all
  have c: "contexts (unmountAudio (Some example_canvas) ?w1) = [Running]"
    using f by (simp add: unmountAudio_contexts)
  have d: "streams (unmountAudio (Some example_canvas) ?w1) = [[Ended]]"
    "sources (unmountAudio (Some example_canvas) ?w1) = [False]"
    "rafPending (unmountAudio (Some example_canvas) ?w1) = []"
    using f r by (simp_all add: unmountAudio_def cleanupAudio_releases)
  show ?thesis
    using f c d by simp
qed

subsection \<open>Frames with equal frequency data\<close>

lemma updateState_agree:
  assumes "phase s = phase s'" and "baseAmplitude s = baseAmplitude s'"
    and "rotationAngle s = rotationAngle s'" and "rotationSpeed s = rotationSpeed s'"
    and "breathPhase s = breathPhase s'" and "breathSpeed s = breathSpeed s'"
  shows "updateState avg s = updateState avg s'"
  by (rule anim_state.equality)
     (simp_all add: updateState_def Let_def assms split: option.splits)

text \<open>
  C2, as amended. The curves of a frame are a fixed formula of that frame's frequency data,
  the canvas dimensions, the constants, and the animation values carried over from the
  frame before: \<open>phase\<close>, \<open>breathPhase\<close>, \<open>rotationAngle\<close> and \<open>baseAmplitude\<close>, with the two
  speeds. Two invocations of the drawing callback that agree on these draw identical
  curves, whatever else differs between the two states (the carried-over \<open>active\<close> flag and
  \<open>targetAmplitude\<close>, the hook state, the refs, the picture already on the canvas).
\<close>
theorem frame_curves_determined:
  assumes "getByteFrequencyData spectrum (dataArray w) = getByteFrequencyData spectrum' (dataArray w')"
    and "bufferLength w = bufferLength w'"
    and "parentElement canvas = parentElement canvas'"
    and "width canvas = width canvas'" and "height canvas = height canvas'"
    and "phase (animationStateRef w) = phase (animationStateRef w')"
    and "baseAmplitude (animationStateRef w) = baseAmplitude (animationStateRef w')"
    and "rotationAngle (animationStateRef w) = rotationAngle (animationStateRef w')"
    and "rotationSpeed (animationStateRef w) = rotationSpeed (animationStateRef w')"
    and "breathPhase (animationStateRef w) = breathPhase (animationStateRef w')"
    and "breathSpeed (animationStateRef w) = breathSpeed (animationStateRef w')"
  shows "picture (fst (drawWaveforms canvas spectrum w))
       = picture (fst (drawWaveforms canvas' spectrum' w'))"
proof -
  have "animationStateRef (snd (drawWaveforms canvas spectrum w))
      = animationStateRef (snd (drawWaveforms canvas' spectrum' w'))"
    unfolding drawWaveforms_anim assms(1,2)
    by (rule updateState_agree) (fact assms)+
  moreover have "width (fst (drawWaveforms canvas spectrum w))
      = width (fst (drawWaveforms canvas' spectrum' w'))"
    by (simp add: drawWaveforms_size assms split: option.splits)
  moreover have "height (fst (drawWaveforms canvas spectrum w))
      = height (fst (drawWaveforms canvas' spectrum' w'))"
    by (simp add: drawWaveforms_height assms split: option.splits)
  ultimately show ?thesis
    unfolding drawWaveforms_picture using assms(1,2) by simp
qed

theorem frame_curves_determined_witness:
  "picture (fst (drawWaveforms example_canvas full_scale
       (mountAudio (Some example_canvas) example_env silence)))
     = picture (fst (drawWaveforms (example_canvas\<lparr>picture := []\<rparr>) full_scale
         ((mountAudio (Some example_canvas) example_env silence)
            \<lparr>isListening := False,
             animationStateRef :=
               (animationStateRef (mountAudio (Some example_canvas) example_env silence))
                 \<lparr>active := True, targetAmplitude := 300\<rparr>\<rparr>)))"
  by (rule frame_curves_determined) simp_all

lemma linePoint_idle:
  assumes "\<not> active state"
  shows "snd (linePoint state len arr w h lineIndex i)
       = Some (h / 2
           + (sin (real i / real points * 8 + phase state + angleOffset lineIndex)
                * amplitude state (real i / real points) * 0.25
              + sin (real i / real points * 16 + phase state * 1.3)
                * amplitude state (real i / real points) * 0.05))"
  using assms by (simp add: linePoint_def waveformValue_def Let_def)

lemma linePoint_x:
  "fst (linePoint state len arr w h lineIndex i)
     = w / 2 + (real i / real points * 2 - 1) * (w * 0.5) * xStretch state (real i / real points)"
  by (simp add: linePoint_def Let_def)

lemma sin_small_increasing:
  fixes x y :: real
  assumes "0 \<le> x" and "x < y" and "y \<le> 1"
  shows "sin x < sin y"
proof (rule sin_monotone_2pi)
  show "- (pi / 2) \<le> x" using assms(1) pi_ge_two by linarith
  show "x < y" by (fact assms(2))
  show "y \<le> pi / 2" using assms(3) pi_ge_two by linarith
qed

lemma enhancedEdgeFactor_positive: "0 < enhancedEdgeFactor (1 / 128)"
proof -
  have "0 < edgeFactor (1 / 128)"
    by (simp add: edgeFactor_def)
  moreover have "0 \<le> sin (1 / 128 * pi)"
    by (rule sin_ge_zero) (use pi_ge_zero in simp_all)
  then have "0 \<le> midBoost (1 / 128)"
    by (simp add: midBoost_def)
  ultimately show ?thesis
    by (simp add: enhancedEdgeFactor_def add_pos_nonneg)
qed

lemma startDrawing_picture:
  assumes "canvasRef w = Some canvas" and "context2d canvas"
    and "parentElement canvas = Some (cw, ch)"
  shows "framePicture (startDrawing a spectrum w)
       = map (drawLine (animationStateRef (startDrawing a spectrum w))
                (bufferLength (startDrawing a spectrum w)) (dataArray (startDrawing a spectrum w))
                (real cw) (real ch))
           [0..<NUM_LINES]"
    and "frameSize (startDrawing a spectrum w) = Some (cw, ch)"
    and "map_option parentElement (canvasRef (startDrawing a spectrum w)) = Some (Some (cw, ch))"
proof -
  let ?v = "w\<lparr>bufferLength := frequencyBinCount a,
               dataArray := replicate (frequencyBinCount a) 0\<rparr>"
  note s = startDrawing_step [OF assms(1,2), of a spectrum]
  have st: "animationStateRef (snd (drawWaveforms canvas spectrum ?v))
          = animationStateRef (startDrawing a spectrum w)"
    unfolding s(2) drawWaveforms_anim by simp
  show "framePicture (startDrawing a spectrum w)
       = map (drawLine (animationStateRef (startDrawing a spectrum w))
                (bufferLength (startDrawing a spectrum w)) (dataArray (startDrawing a spectrum w))
                (real cw) (real ch))
           [0..<NUM_LINES]"
    unfolding framePicture_def s(1) option.case drawWaveforms_picture st s(3) s(4)
    by (simp add: drawWaveforms_size drawWaveforms_height assms(3))
  show "frameSize (startDrawing a spectrum w) = Some (cw, ch)"
    unfolding frameSize_def s(1) by (simp add: drawWaveforms_size drawWaveforms_height assms(3))
  show "map_option parentElement (canvasRef (startDrawing a spectrum w)) = Some (Some (cw, ch))"
    unfolding s(1) by (simp add: drawWaveforms_size assms(3))
qed

lemma displayRefresh_picture:
  assumes "canvasRef w = Some canvas" and "rafPending w = [ident]"
    and "parentElement canvas = Some (cw, ch)"
  shows "framePicture (displayRefresh spectrum w)
       = map (drawLine (animationStateRef (displayRefresh spectrum w))
                (bufferLength w) (dataArray (displayRefresh spectrum w))
                (real cw) (real ch))
           [0..<NUM_LINES]"
    and "frameSize (displayRefresh spectrum w) = Some (cw, ch)"
proof -
  let ?v = "w\<lparr>rafPending := []\<rparr>"
  note s = displayRefresh_step [OF assms(1,2), of spectrum]
  have st: "animationStateRef (snd (drawWaveforms canvas spectrum ?v))
          = animationStateRef (displayRefresh spectrum w)"
    unfolding s(2) drawWaveforms_anim by simp
  show "framePicture (displayRefresh spectrum w)
       = map (drawLine (animationStateRef (displayRefresh spectrum w))
                (bufferLength w) (dataArray (displayRefresh spectrum w))
                (real cw) (real ch))
           [0..<NUM_LINES]"
    unfolding framePicture_def s(1) option.case drawWaveforms_picture st s(3)
    by (simp add: drawWaveforms_size drawWaveforms_height assms(3))
  show "frameSize (displayRefresh spectrum w) = Some (cw, ch)"
    unfolding frameSize_def s(1) by (simp add: drawWaveforms_size drawWaveforms_height assms(3))
qed

lemma mounted_picture:
  fixes canvas :: canvas_element and spectrum :: "byte list"
  defines "w \<equiv> mountAudio (Some canvas) example_env spectrum"
  assumes "context2d canvas" and "parentElement canvas = Some (cw, ch)"
  shows "framePicture w
       = map (drawLine (animationStateRef w) (bufferLength w) (dataArray w) (real cw) (real ch))
           [0..<NUM_LINES]"
    and "frameSize w = Some (cw, ch)"
    and "map_option parentElement (canvasRef w) = Some (Some (cw, ch))"
proof -
  let ?a = "\<lparr>fftSize = 2048, smoothingTimeConstant = 0.85\<rparr>"
  let ?v = "(initial_audio (Some canvas))\<lparr>streams := [[Live]], mediaStreamRef := Some 0,
            contexts := [Running], sources := [True], sourceRef := Some 0,
            audioContext := Some 0, analyser := Some ?a, isListening := True\<rparr>"
  have w: "w = startDrawing ?a spectrum ?v"
    unfolding w_def example_env_def by (rule mountAudio_granted)
  have c: "canvasRef ?v = Some canvas"
    by (simp add: initial_audio_def)
  show "framePicture w
       = map (drawLine (animationStateRef w) (bufferLength w) (dataArray w) (real cw) (real ch))
           [0..<NUM_LINES]"
    unfolding w by (rule startDrawing_picture(1) [OF c assms(2,3)])
  show "frameSize w = Some (cw, ch)"
    unfolding w by (rule startDrawing_picture(2) [OF c assms(2,3)])
  show "map_option parentElement (canvasRef w) = Some (Some (cw, ch))"
    unfolding w by (rule startDrawing_picture(3) [OF c assms(2,3)])
qed

lemma weighted_sum_strict:
  fixes a b c d :: real
  assumes "a < c" and "b < d"
  shows "a * 0.25 + b * 0.05 \<noteq> c * 0.25 + d * 0.05"
  using assms by simp

lemma idle_frames_differ:
  fixes s1 s2 :: anim_state
  assumes "phase s1 = 1 / 100" and "phase s2 = 2 / 100"
    and "rotationAngle s1 = 20" and "rotationAngle s2 = 40"
    and "breathPhase s1 = 20" and "breathPhase s2 = 40"
    and "baseAmplitude s1 = 10" and "baseAmplitude s2 = 10"
    and "\<not> active s1" and "\<not> active s2"
  shows "linePoint s1 len arr 800 600 0 0 \<noteq> linePoint s2 len arr 800 600 0 0
       \<or> linePoint s1 len arr 800 600 0 1 \<noteq> linePoint s2 len arr 800 600 0 1"
proof (rule ccontr)
  assume "\<not> ?thesis"
  then have p0: "linePoint s1 len arr 800 600 0 0 = linePoint s2 len arr 800 600 0 0"
    and p1: "linePoint s1 len arr 800 600 0 1 = linePoint s2 len arr 800 600 0 1"
    by simp_all
  define t :: real where "t = 1 / 128"
  have t: "real 1 / real points = t" by (simp add: t_def points_def)
  have "fst (linePoint s1 len arr 800 600 0 0) = fst (linePoint s2 len arr 800 600 0 0)"
    using p0 by simp
  then have rot: "sin 20 = (sin 40 :: real)"
    unfolding linePoint_x by (simp add: xStretch_def assms)
  define A where "A = amplitude s1 t"
  have A2: "amplitude s2 t = A"
    unfolding A_def by (simp add: amplitude_def Let_def assms rot)
  have "A = 10 * enhancedEdgeFactor t * (1 + sin 20 / 100)"
    unfolding A_def by (simp add: amplitude_def Let_def assms)
  moreover have "0 < 1 + sin (20::real) / 100"
    using sin_ge_minus_one [of "20::real"] by argo
  ultimately have A: "0 < A"
    using enhancedEdgeFactor_positive by (simp add: t_def)
  have "snd (linePoint s1 len arr 800 600 0 1) = snd (linePoint s2 len arr 800 600 0 1)"
    using p1 by simp
  then have y: "sin (t * 8 + phase s1 + angleOffset 0) * A * 0.25 + sin (t * 16 + phase s1 * 1.3) * A * 0.05
              = sin (t * 8 + phase s2 + angleOffset 0) * A * 0.25 + sin (t * 16 + phase s2 * 1.3) * A * 0.05"
    unfolding linePoint_idle [OF assms(9)] linePoint_idle [OF assms(10)] t A2 A_def [symmetric]
    by simp
  have "sin (t * 8 + phase s1 + angleOffset 0) < sin (t * 8 + phase s2 + angleOffset 0)"
    by (rule sin_small_increasing) (simp_all add: t_def assms angleOffset_def)
  then have m1: "sin (t * 8 + phase s1 + angleOffset 0) * A < sin (t * 8 + phase s2 + angleOffset 0) * A"
    using A by (rule mult_strict_right_mono)
  have "sin (t * 16 + phase s1 * 1.3) < sin (t * 16 + phase s2 * 1.3)"
    by (rule sin_small_increasing) (simp_all add: t_def assms)
  then have m2: "sin (t * 16 + phase s1 * 1.3) * A < sin (t * 16 + phase s2 * 1.3) * A"
    using A by (rule mult_strict_right_mono)
  show False using y weighted_sum_strict [OF m1 m2] by simp
qed

text \<open>
  C2 as stated fails: the first two frames of a run in silence have equal frequency data
  (all zero) and equal canvas dimensions (800 by 600), and draw different curves, since
  \<open>phase\<close>, \<open>breathPhase\<close> and \<open>rotationAngle\<close> have advanced in between.
\<close>
theorem equal_data_different_curves:
  "dataArray (mountAudio (Some example_canvas) example_env silence) = silence
   \<and> dataArray (displayRefresh silence (mountAudio (Some example_canvas) example_env silence)) = silence
   \<and> frameSize (mountAudio (Some example_canvas) example_env silence) = Some (800, 600)
   \<and> frameSize (displayRefresh silence (mountAudio (Some example_canvas) example_env silence))
       = Some (800, 600)
   \<and> framePicture (mountAudio (Some example_canvas) example_env silence)
       \<noteq> framePicture (displayRefresh silence (mountAudio (Some example_canvas) example_env silence))"
proof -
  let ?w1 = "mountAudio (Some example_canvas) example_env silence"
  let ?w2 = "displayRefresh silence ?w1"
  let ?s1 = "updateState (Some 0) initial_anim"
  let ?s2 = "updateState (Some 0) ?s1"
  have x: "context2d example_canvas" and pe: "parentElement example_canvas = Some (800, 600)"
    by (simp_all add: example_canvas_def)
  note m = mounted_fields [OF x, of silence]
  note mp = mounted_picture [OF x pe, of silence]
  have d1: "dataArray ?w1 = silence"
    unfolding m(14) by (simp add: getByteFrequencyData_full silence_def)
  have s1: "animationStateRef ?w1 = ?s1"
    unfolding m(15) by (simp add: average_examples)
  obtain canvas where c: "canvasRef ?w1 = Some canvas" and cp: "parentElement canvas = Some (800, 600)"
    using mp(3) by auto
  note r = displayRefresh_step [OF c m(9), of silence]
  note rp = displayRefresh_picture [OF c m(9) cp, of silence]
  have d2: "dataArray ?w2 = silence"
    unfolding r(3) d1 by (rule getByteFrequencyData_full) (rule refl)
  have ls: "length silence = 1024"
    by (simp add: silence_def)
  have s2: "animationStateRef ?w2 = ?s2"
    unfolding r(2) m(13) s1 d1 average_examples(1) [OF ls] by (rule refl)
  have pic1: "framePicture ?w1 = map (drawLine ?s1 1024 silence 800 600) [0..<NUM_LINES]"
    using mp(1) unfolding s1 m(13) d1 by simp
  have pic2: "framePicture ?w2 = map (drawLine ?s2 1024 silence 800 600) [0..<NUM_LINES]"
    using rp(1) unfolding s2 m(13) d2 by simp
  have differ: "linePoint ?s1 1024 silence 800 600 0 0 \<noteq> linePoint ?s2 1024 silence 800 600 0 0
       \<or> linePoint ?s1 1024 silence 800 600 0 1 \<noteq> linePoint ?s2 1024 silence 800 600 0 1"
    by (rule idle_frames_differ)
       (simp_all add: updateState_quiet initial_anim_def IDLE_AMPLITUDE_def)
  have "framePicture ?w1 \<noteq> framePicture ?w2"
  proof
    assume "framePicture ?w1 = framePicture ?w2"
    then have "map (drawLine ?s1 1024 silence 800 600) [0..<NUM_LINES]
             = map (drawLine ?s2 1024 silence 800 600) [0..<NUM_LINES]"
      unfolding pic1 pic2 .
    then have "drawLine ?s1 1024 silence 800 600 0 = drawLine ?s2 1024 silence 800 600 0"
      by (simp add: NUM_LINES_def)
    then have "pathPoints (drawLine ?s1 1024 silence 800 600 0)
             = pathPoints (drawLine ?s2 1024 silence 800 600 0)"
      by simp
    then have "map (linePoint ?s1 1024 silence 800 600 0) [0..<Suc points]
             = map (linePoint ?s2 1024 silence 800 600 0) [0..<Suc points]"
      by (simp add: drawLine_def Let_def del: upt_Suc)
    then have "\<forall>i \<in> set [0..<Suc points].
        linePoint ?s1 1024 silence 800 600 0 i = linePoint ?s2 1024 silence 800 600 0 i"
      by (simp only: map_eq_conv)
    then have "linePoint ?s1 1024 silence 800 600 0 0 = linePoint ?s2 1024 silence 800 600 0 0"
      and "linePoint ?s1 1024 silence 800 600 0 1 = linePoint ?s2 1024 silence 800 600 0 1"
      by (simp_all add: points_def)
    then show False using differ by blast
  qed
  then show ?thesis
    using d1 d2 mp(2) rp(2) by simp
qed

end
